theory Spec2Isabelle
  imports Complex_Main
begin

section \<open>Conventions of the embedding\<close>

text \<open>
  The development embeds the iteration engine of the refinement controller:
  the scoring module (\<^verbatim>\<open>src/utils/scoring.py\<close>), the output parsers
  (\<^verbatim>\<open>src/utils/parser.py\<close>), the evaluation pipeline
  (\<^verbatim>\<open>src/tools/handlers/lib/evaluation.py\<close>), the parameter translator
  (\<^verbatim>\<open>src/tools/param_translator.py\<close>), the availability probe
  (\<^verbatim>\<open>src/utils/command.py\<close>) and the file reader of
  \<^verbatim>\<open>src/server.py\<close>.

  \<^item> The value of a Python \<^verbatim>\<open>float\<close> is a \<^typ>\<open>real\<close>. The scoring module and the
    evaluation pipeline compute with floats; their embedding takes the arithmetic as a
    parameter, so that the rounding of IEEE doubles is represented (section
    ``Floating-point arithmetic''). The parsers and the translator convert decimal
    text to a float; there the value is the exact decimal.
  \<^item> A Python \<^verbatim>\<open>int\<close> is an \<^typ>\<open>int\<close>.
  \<^item> A Python \<^verbatim>\<open>str\<close> is a \<^typ>\<open>string\<close>, one \<^typ>\<open>char\<close> per code point, which
    covers the code points below 256.
  \<^item> \<^verbatim>\<open>Optional[T]\<close> is \<^typ>\<open>'a option\<close>, \<^verbatim>\<open>None\<close> is \<^term>\<open>None\<close>.
  \<^item> A dataclass is a record with the fields the modelled functions read or write.
  \<^item> An exception is a value of \<^verbatim>\<open>py_error\<close>, returned as \<^term>\<open>Inl e\<close>.
\<close>

section \<open>Signals and weights (\<^verbatim>\<open>src/types.py\<close>)\<close>

record WeightsConfig =
  data_quality :: real
  test :: real
  lint :: real
  perf :: real

record TestResults =
  passed :: int
  failed :: int
  total :: int
  raw :: "string option"

record PerfResults =
  "value" :: real
  unit :: "string option"

text \<open>The default weights of \<^verbatim>\<open>src/constants.py\<close>, as the decimals the source writes.\<close>

definition DEFAULT_WEIGHTS :: WeightsConfig where
  "DEFAULT_WEIGHTS = \<lparr>data_quality = 0.3, test = 0.4, lint = 0.1, perf = 0.2\<rparr>"

section \<open>Floating-point arithmetic\<close>

text \<open>
  A Python \<^verbatim>\<open>float\<close> is an IEEE 754 double. An operation on floats returns the exact
  result rounded to a double, so \<^verbatim>\<open>a * b + c\<close> rounds twice. The functions that
  compute with floats take an arithmetic: \<open>rnd\<close> rounds the exact result of one
  operation, and \<open>fsum\<close> is the builtin \<^verbatim>\<open>sum\<close> on a list of floats.
\<close>

record arith =
  rnd :: "real \<Rightarrow> real"
  fsum :: "real list \<Rightarrow> real"

text \<open>The arithmetic of the specification's formulas: nothing is rounded.\<close>

definition exact :: arith where
  "exact = \<lparr>rnd = (\<lambda>x. x), fsum = sum_list\<rparr>"

text \<open>
  Rounding to the nearest double, ties to even. A positive \<open>x\<close> with
  \<open>2\<^sup>e \<le> x < 2\<^sup>e\<^sup>+\<^sup>1\<close> is rounded to a multiple of \<open>2\<^sup>e\<^sup>-\<^sup>5\<^sup>2\<close>, the doubles of that binade.
  \<open>binade\<close> finds \<open>e\<close> by halving or doubling, at most 1100 times, which covers the
  exponents of normal doubles (-1022 to 1023). Overflow to infinity, NaN and subnormal
  numbers are not represented.
\<close>

definition pow2 :: "int \<Rightarrow> real" where
  "pow2 k = (if k \<ge> 0 then 2 ^ nat k else 1 / 2 ^ nat (- k))"

fun binade :: "nat \<Rightarrow> real \<Rightarrow> int" where
  "binade 0 x = 0"
| "binade (Suc n) x =
     (if x \<ge> 2 then binade n (x / 2) + 1
      else if x < 1 then binade n (x * 2) - 1
      else 0)"

definition round_half_even :: "real \<Rightarrow> int" where
  "round_half_even y =
     (let f = \<lfloor>y\<rfloor>; d = y - real_of_int f
      in if d < 1 / 2 then f
         else if d > 1 / 2 then f + 1
         else if even f then f else f + 1)"

definition double :: "real \<Rightarrow> real" where
  "double x =
     (if x = 0 then 0
      else (let e = binade 1100 \<bar>x\<bar>;
                ulp = pow2 (e - 52)
            in sgn x * real_of_int (round_half_even (\<bar>x\<bar> / ulp)) * ulp))"

text \<open>
  The arithmetic of the interpreter. Before version 3.12 \<^verbatim>\<open>sum\<close> adds from the left,
  starting from the integer 0 and rounding after each addition; from 3.12 on it
  compensates the rounding errors of the additions. The two agree on a list with fewer
  than two elements, and \<open>ieee\<close> takes the first.
\<close>

definition ieee :: arith where
  "ieee = \<lparr>rnd = double, fsum = foldl (\<lambda>acc c. double (acc + c)) 0\<rparr>"

text \<open>
  A float literal of the source denotes its decimal, rounded by the arithmetic.
  \<open>stored ar w\<close> are the weights \<open>w\<close> as the interpreter holds them.
\<close>

definition stored :: "arith \<Rightarrow> WeightsConfig \<Rightarrow> WeightsConfig" where
  "stored ar w = \<lparr>data_quality = rnd ar (data_quality w), test = rnd ar (test w),
                  lint = rnd ar (lint w), perf = rnd ar (perf w)\<rparr>"

section \<open>Scoring module (\<^verbatim>\<open>src/utils/scoring.py\<close>)\<close>

text \<open>
  \<^verbatim>\<open>calculate_weighted_score\<close> threads the two locals \<^verbatim>\<open>components\<close> and
  \<^verbatim>\<open>total_weight\<close> through four guarded blocks. Each block is a function on the
  pair of locals, in the order of the source. Every product, quotient and sum of
  floats is rounded by the arithmetic \<open>ar\<close>; the quotient of the two integers
  \<^verbatim>\<open>tests.passed / tests.total\<close> is a float, rounded once.
\<close>

type_synonym score_acc = "real list \<times> real"

definition add_data_quality ::
  "arith \<Rightarrow> bool option \<Rightarrow> WeightsConfig \<Rightarrow> score_acc \<Rightarrow> score_acc" where
  "add_data_quality ar ok_data_quality weights acc =
     (case ok_data_quality of
        None \<Rightarrow> acc
      | Some ok \<Rightarrow>
          (let s_data_quality = (if ok then 1 else 0)
           in (fst acc @ [rnd ar (data_quality weights * s_data_quality)],
               rnd ar (snd acc + data_quality weights))))"

definition add_tests ::
  "arith \<Rightarrow> TestResults option \<Rightarrow> WeightsConfig \<Rightarrow> score_acc \<Rightarrow> score_acc" where
  "add_tests ar tests weights acc =
     (case tests of
        None \<Rightarrow> acc
      | Some t \<Rightarrow>
          if total t > 0
          then (let s_tests = rnd ar (real_of_int (passed t) / real_of_int (total t))
                in (fst acc @ [rnd ar (test weights * s_tests)],
                    rnd ar (snd acc + test weights)))
          else acc)"

definition add_lint ::
  "arith \<Rightarrow> bool option \<Rightarrow> WeightsConfig \<Rightarrow> score_acc \<Rightarrow> score_acc" where
  "add_lint ar ok_lint weights acc =
     (case ok_lint of
        None \<Rightarrow> acc
      | Some ok \<Rightarrow>
          (let s_lint = (if ok then 1 else 0)
           in (fst acc @ [rnd ar (lint weights * s_lint)],
               rnd ar (snd acc + lint weights))))"

definition perf_signal :: "arith \<Rightarrow> PerfResults \<Rightarrow> real option \<Rightarrow> real" where
  "perf_signal ar p best_perf =
     (case best_perf of
        None \<Rightarrow> 1
      | Some b \<Rightarrow> if b > 0 then min 1 (rnd ar (b / value p)) else 1)"

definition add_perf ::
  "arith \<Rightarrow> PerfResults option \<Rightarrow> real option \<Rightarrow> WeightsConfig \<Rightarrow> score_acc \<Rightarrow> score_acc" where
  "add_perf ar perf' best_perf weights acc =
     (case perf' of
        None \<Rightarrow> acc
      | Some p \<Rightarrow>
          if value p > 0
          then (let s_perf = perf_signal ar p best_perf
                in (fst acc @ [rnd ar (perf weights * s_perf)],
                    rnd ar (snd acc + perf weights)))
          else acc)"

definition score_locals ::
  "arith \<Rightarrow> bool option \<Rightarrow> bool option \<Rightarrow> TestResults option \<Rightarrow> PerfResults option \<Rightarrow>
   WeightsConfig \<Rightarrow> real option \<Rightarrow> score_acc" where
  "score_locals ar ok_data_quality ok_lint tests perf' weights best_perf =
     add_perf ar perf' best_perf weights
       (add_lint ar ok_lint weights
         (add_tests ar tests weights
           (add_data_quality ar ok_data_quality weights ([], 0))))"

definition calculate_weighted_score ::
  "arith \<Rightarrow> bool option \<Rightarrow> bool option \<Rightarrow> TestResults option \<Rightarrow> PerfResults option \<Rightarrow>
   WeightsConfig \<Rightarrow> real option \<Rightarrow> real" where
  "calculate_weighted_score ar ok_data_quality ok_lint tests perf' weights best_perf =
     (let acc = score_locals ar ok_data_quality ok_lint tests perf' weights best_perf;
          components = fst acc;
          total_weight = snd acc
      in if total_weight = 0 then 0 else rnd ar (fsum ar components / total_weight))"

definition update_ema_score :: "arith \<Rightarrow> real \<Rightarrow> real \<Rightarrow> real \<Rightarrow> real" where
  "update_ema_score ar current_score prev_ema alpha =
     rnd ar (rnd ar (alpha * current_score) + rnd ar (rnd ar (1 - alpha) * prev_ema))"

text \<open>
  The reasons of \<^verbatim>\<open>should_halt_iteration\<close> are f-strings. A reason is represented by
  the message it is an instance of, with the values the f-string interpolates.
\<close>

datatype halt_reason =
    Success real real
  | Plateau int int
  | Limit int
  | Continue int int real real

definition should_halt_iteration ::
  "int \<Rightarrow> real \<Rightarrow> real \<Rightarrow> int \<Rightarrow> bool \<Rightarrow> int \<Rightarrow> real \<Rightarrow> int \<Rightarrow> int \<Rightarrow> bool \<times> halt_reason list" where
  "should_halt_iteration step score ema_score no_improve_streak tests_passed
       max_steps pass_threshold patience_no_improve min_steps =
     (let reasons = [] in
      if step \<ge> min_steps \<and> tests_passed \<and> score \<ge> pass_threshold
      then (True, reasons @ [Success score pass_threshold])
      else if no_improve_streak \<ge> patience_no_improve
      then (True, reasons @ [Plateau no_improve_streak patience_no_improve])
      else if step \<ge> max_steps
      then (True, reasons @ [Limit max_steps])
      else (False, reasons @ [Continue step max_steps score ema_score]))"


subsection \<open>The halting rules as the specification words them\<close>

text \<open>The three halting rules of section 4.3, in the specification's words.\<close>

definition success_rule :: "int \<Rightarrow> real \<Rightarrow> bool \<Rightarrow> real \<Rightarrow> int \<Rightarrow> bool" where
  "success_rule n sc tests_ok thr mn \<longleftrightarrow> n \<ge> mn \<and> tests_ok \<and> sc \<ge> thr"

definition plateau_rule :: "int \<Rightarrow> int \<Rightarrow> bool" where
  "plateau_rule streak pat \<longleftrightarrow> streak \<ge> pat"

definition limit_rule :: "int \<Rightarrow> int \<Rightarrow> bool" where
  "limit_rule n mx \<longleftrightarrow> n \<ge> mx"

section \<open>Python values and exceptions\<close>

text \<open>
  The exceptions the modelled functions can raise. \<open>Unmodelled\<close> is not an exception
  of the source: it marks an input on which the source continues with a value this
  embedding does not represent (a float that is not a real number, a code point
  above 255, a count that is not an integer).
\<close>

datatype py_error =
    JSONDecodeError | KeyError | ValueError | TypeError | AttributeError | IndexError
  | OverflowError | SubprocessError
  | Unmodelled

text \<open>
  The values \<^verbatim>\<open>json.loads\<close> produces, which are also the values of an operation's
  argument object. A \<^verbatim>\<open>dict\<close> is an association list in insertion order; a lookup
  takes the first entry of a key.
\<close>

datatype pyval =
    PNone
  | PBool bool
  | PInt int
  | PFloat real
  | PStr string
  | PList "pyval list"
  | PDict "(string \<times> pyval) list"

type_synonym pydict = "(string \<times> pyval) list"

definition bind_err :: "'e + 'a \<Rightarrow> ('a \<Rightarrow> 'e + 'b) \<Rightarrow> 'e + 'b" where
  "bind_err m f = (case m of Inl e \<Rightarrow> Inl e | Inr x \<Rightarrow> f x)"

definition dict_has :: "pydict \<Rightarrow> string \<Rightarrow> bool" where
  "dict_has d k \<longleftrightarrow> map_of d k \<noteq> None"

definition dict_get :: "pydict \<Rightarrow> string \<Rightarrow> pyval \<Rightarrow> pyval" where
  "dict_get d k dflt = (case map_of d k of None \<Rightarrow> dflt | Some v \<Rightarrow> v)"

fun dict_set :: "pydict \<Rightarrow> string \<Rightarrow> pyval \<Rightarrow> pydict" where
  "dict_set [] k v = [(k, v)]"
| "dict_set ((k', v') # d) k v =
     (if k' = k then (k, v) # d else (k', v') # dict_set d k v)"

section \<open>Parameter translator (\<^verbatim>\<open>src/tools/param_translator.py\<close>)\<close>

text \<open>
  \<^verbatim>\<open>w.get(k, d)\<close> on a value of any type: only a \<^verbatim>\<open>dict\<close> has the method, every
  other value raises \<^verbatim>\<open>AttributeError\<close>.
\<close>

definition attr_get :: "pyval \<Rightarrow> string \<Rightarrow> pyval \<Rightarrow> py_error + pyval" where
  "attr_get w k dflt =
     (case w of PDict d \<Rightarrow> Inr (dict_get d k dflt) | _ \<Rightarrow> Inl AttributeError)"

definition translate_weights :: "pyval \<Rightarrow> py_error + pyval" where
  "translate_weights w =
     bind_err (attr_get w ''dataQual'' (PFloat 0.3)) (\<lambda>dq.
     bind_err (attr_get w ''test'' (PFloat 0.4)) (\<lambda>te.
     bind_err (attr_get w ''lint'' (PFloat 0.1)) (\<lambda>li.
     bind_err (attr_get w ''perf'' (PFloat 0.2)) (\<lambda>pe.
       Inr (PDict [(''data_quality'', dq), (''test'', te), (''lint'', li), (''perf'', pe)])))))"

definition translate_halt :: "pyval \<Rightarrow> py_error + pyval" where
  "translate_halt h =
     bind_err (attr_get h ''max'' (PInt 12)) (\<lambda>mx.
     bind_err (attr_get h ''threshold'' (PFloat 0.95)) (\<lambda>th.
     bind_err (attr_get h ''patience'' (PInt 3)) (\<lambda>pa.
     bind_err (attr_get h ''min'' (PInt 1)) (\<lambda>mn.
       Inr (PDict [(''max_steps'', mx), (''pass_threshold'', th),
                   (''patience_no_improve'', pa), (''min_steps'', mn)])))))"

definition translate_start :: "pydict \<Rightarrow> py_error + pydict" where
  "translate_start args =
     (let translated =
            [(''repo_path'', dict_get args ''repo'' PNone),
             (''data_quality_cmd'', dict_get args ''dataQual'' PNone),
             (''test_cmd'', dict_get args ''test'' PNone),
             (''lint_cmd'', dict_get args ''lint'' PNone),
             (''perf_cmd'', dict_get args ''bench'' PNone),
             (''timeout_sec'', dict_get args ''timeout'' (PInt 120)),
             (''z_notes'', dict_get args ''notes'' PNone),
             (''ema_alpha'', dict_get args ''ema'' (PFloat 0.9))]
      in bind_err
           (if dict_has args ''weights''
            then bind_err (translate_weights (dict_get args ''weights'' PNone))
                   (\<lambda>w. Inr (dict_set translated ''weights'' w))
            else Inr translated) (\<lambda>translated.
         bind_err
           (if dict_has args ''halt''
            then bind_err (translate_halt (dict_get args ''halt'' PNone))
                   (\<lambda>h. Inr (dict_set translated ''halt'' h))
            else Inr translated) (\<lambda>translated.
         Inr (filter (\<lambda>(k, v). v \<noteq> PNone) translated))))"

definition translate_submit :: "pydict \<Rightarrow> pydict" where
  "translate_submit args =
     [(''session_id'', dict_get args ''sid'' PNone),
      (''candidate'', dict_get args ''candidate'' PNone),
      (''rationale'', dict_get args ''reason'' PNone)]"

definition translate_read :: "pydict \<Rightarrow> pydict" where
  "translate_read args =
     [(''session_id'', dict_get args ''sid'' PNone),
      (''paths'', dict_get args ''paths'' (PList []))]"

definition translate_session_id :: "pydict \<Rightarrow> pydict" where
  "translate_session_id args = [(''session_id'', dict_get args ''sid'' PNone)]"

definition translate_checkpoint :: "pydict \<Rightarrow> string \<Rightarrow> pydict" where
  "translate_checkpoint args tool_name =
     (let result = [(''session_id'', dict_get args ''sid'' PNone)]
      in if tool_name = ''trm.save''
         then dict_set result ''description'' (dict_get args ''desc'' PNone)
         else if tool_name = ''trm.restore''
         then dict_set result ''checkpoint_id'' (dict_get args ''cid'' PNone)
         else result)"

definition translate_lines :: "pydict \<Rightarrow> pydict" where
  "translate_lines args =
     [(''session_id'', dict_get args ''sid'' PNone),
      (''file'', dict_get args ''file'' PNone),
      (''start_line'', dict_get args ''start'' PNone),
      (''end_line'', dict_get args ''end'' PNone)]"

definition translate_review :: "pydict \<Rightarrow> pydict" where
  "translate_review args =
     [(''pr_url'', dict_get args ''url'' PNone),
      (''diff'', dict_get args ''diff'' PNone),
      (''files'', dict_get args ''files'' PNone),
      (''focus'', dict_get args ''focus'' PNone)]"

definition translate_params :: "string \<Rightarrow> pydict \<Rightarrow> py_error + pydict" where
  "translate_params tool_name args =
     (if tool_name = ''trm.start'' then translate_start args
      else if tool_name = ''trm.submit'' then Inr (translate_submit args)
      else if tool_name = ''trm.read'' then Inr (translate_read args)
      else if tool_name \<in> set [''trm.state'', ''trm.halt'', ''trm.end'', ''trm.validate'', ''trm.suggest'']
      then Inr (translate_session_id args)
      else if tool_name \<in> set [''trm.save'', ''trm.restore'', ''trm.list'', ''trm.reset'', ''trm.undo'']
      then Inr (translate_checkpoint args tool_name)
      else if tool_name = ''trm.lines'' then Inr (translate_lines args)
      else if tool_name = ''trm.fix'' then Inr (translate_session_id args)
      else if tool_name = ''trm.review'' then Inr (translate_review args)
      else Inr args)"

subsection \<open>The inverse key mapping\<close>

text \<open>
  Modelled from the spec: the repository has no function from long names back to short
  names. The tables are the key translations of section 6 of the specification (short
  name first), and \<open>invert_keys\<close> renames each long key of a dictionary to its short
  name, dropping the keys the table does not know. \<open>inverse_start\<close> does so at the top
  level and inside \<^verbatim>\<open>weights\<close> and \<^verbatim>\<open>halt\<close>.
\<close>

definition start_keys :: "(string \<times> string) list" where
  "start_keys =
     [(''repo'', ''repo_path''), (''dataQual'', ''data_quality_cmd''), (''test'', ''test_cmd''),
      (''lint'', ''lint_cmd''), (''bench'', ''perf_cmd''), (''timeout'', ''timeout_sec''),
      (''ema'', ''ema_alpha''), (''notes'', ''z_notes'')]"

definition weights_keys :: "(string \<times> string) list" where
  "weights_keys =
     [(''dataQual'', ''data_quality''), (''test'', ''test''), (''lint'', ''lint''),
      (''perf'', ''perf'')]"

definition halt_keys :: "(string \<times> string) list" where
  "halt_keys =
     [(''max'', ''max_steps''), (''threshold'', ''pass_threshold''),
      (''patience'', ''patience_no_improve''), (''min'', ''min_steps'')]"

definition submit_keys :: "(string \<times> string) list" where
  "submit_keys = [(''sid'', ''session_id''), (''reason'', ''rationale'')]"

fun short_of :: "(string \<times> string) list \<Rightarrow> string \<Rightarrow> string option" where
  "short_of [] l = None"
| "short_of ((s, l') # tbl) l = (if l' = l then Some s else short_of tbl l)"

fun invert_keys :: "(string \<times> string) list \<Rightarrow> pydict \<Rightarrow> pydict" where
  "invert_keys tbl [] = []"
| "invert_keys tbl ((l, v) # d) =
     (case short_of tbl l of
        Some s \<Rightarrow> (s, v) # invert_keys tbl d
      | None \<Rightarrow> invert_keys tbl d)"

definition invert_nested :: "(string \<times> string) list \<Rightarrow> string \<Rightarrow> pydict \<Rightarrow> pydict" where
  "invert_nested tbl k t =
     (case map_of t k of
        Some (PDict d) \<Rightarrow> [(k, PDict (invert_keys tbl d))]
      | _ \<Rightarrow> [])"

definition inverse_start :: "pydict \<Rightarrow> pydict" where
  "inverse_start t =
     invert_keys start_keys t @ invert_nested weights_keys ''weights'' t @
     invert_nested halt_keys ''halt'' t"

definition inverse_submit :: "pydict \<Rightarrow> pydict" where
  "inverse_submit t = invert_keys submit_keys t"

text \<open>
  \<open>object_or_absent args k\<close>: the argument \<open>k\<close> is omitted or is a JSON object.
  \<open>same_on tbl d' d\<close>: every short key of \<open>tbl\<close> that \<open>d\<close> has reads the same in
  \<open>d'\<close> (as \<^verbatim>\<open>d.get(k)\<close> reads it). \<open>nested_same_on\<close> is the same inside the
  nested object \<open>k\<close>.
\<close>

definition object_or_absent :: "pydict \<Rightarrow> string \<Rightarrow> bool" where
  "object_or_absent args k =
     (case map_of args k of None \<Rightarrow> True | Some (PDict d) \<Rightarrow> True | Some _ \<Rightarrow> False)"

definition same_on :: "(string \<times> string) list \<Rightarrow> pydict \<Rightarrow> pydict \<Rightarrow> bool" where
  "same_on tbl d' d \<longleftrightarrow>
     (\<forall>k\<in>set (map fst tbl). dict_has d k \<longrightarrow> dict_get d' k PNone = dict_get d k PNone)"

definition nested_same_on :: "(string \<times> string) list \<Rightarrow> string \<Rightarrow> pydict \<Rightarrow> pydict \<Rightarrow> bool" where
  "nested_same_on tbl k d' d \<longleftrightarrow>
     (\<forall>w. map_of d k = Some (PDict w) \<longrightarrow>
        (\<exists>w'. map_of d' k = Some (PDict w') \<and> same_on tbl w' w))"

(* ---- lemmas ---- *)

text \<open>
  The dictionary \<^verbatim>\<open>translated\<close> of \<^verbatim>\<open>_translate_start\<close> just before its
  \<^verbatim>\<open>None\<close> values are removed, as a closed form.
\<close>

definition translated_weights :: "pydict \<Rightarrow> pydict" where
  "translated_weights w =
     [(''data_quality'', dict_get w ''dataQual'' (PFloat 0.3)),
      (''test'', dict_get w ''test'' (PFloat 0.4)),
      (''lint'', dict_get w ''lint'' (PFloat 0.1)),
      (''perf'', dict_get w ''perf'' (PFloat 0.2))]"

definition translated_halt :: "pydict \<Rightarrow> pydict" where
  "translated_halt h =
     [(''max_steps'', dict_get h ''max'' (PInt 12)),
      (''pass_threshold'', dict_get h ''threshold'' (PFloat 0.95)),
      (''patience_no_improve'', dict_get h ''patience'' (PInt 3)),
      (''min_steps'', dict_get h ''min'' (PInt 1))]"

definition start_scalars :: "pydict \<Rightarrow> pydict" where
  "start_scalars args =
     [(''repo_path'', dict_get args ''repo'' PNone),
      (''data_quality_cmd'', dict_get args ''dataQual'' PNone),
      (''test_cmd'', dict_get args ''test'' PNone),
      (''lint_cmd'', dict_get args ''lint'' PNone),
      (''perf_cmd'', dict_get args ''bench'' PNone),
      (''timeout_sec'', dict_get args ''timeout'' (PInt 120)),
      (''z_notes'', dict_get args ''notes'' PNone),
      (''ema_alpha'', dict_get args ''ema'' (PFloat 0.9))]"

definition start_nested :: "string \<Rightarrow> (pydict \<Rightarrow> pydict) \<Rightarrow> pydict \<Rightarrow> pydict" where
  "start_nested k f args =
     (case map_of args k of Some (PDict d) \<Rightarrow> [(k, PDict (f d))] | _ \<Rightarrow> [])"

definition start_unfiltered :: "pydict \<Rightarrow> pydict" where
  "start_unfiltered args =
     start_scalars args @ start_nested ''weights'' translated_weights args @
     start_nested ''halt'' translated_halt args"

definition start_default :: "string \<Rightarrow> pyval" where
  "start_default s =
     (if s = ''timeout'' then PInt 120 else if s = ''ema'' then PFloat 0.9 else PNone)"

text \<open>The arguments of the repository's workflow test (\<^verbatim>\<open>test_trm.py\<close>), without \<^verbatim>\<open>patience\<close>.\<close>

definition example_start_args :: pydict where
  "example_start_args =
     [(''repo'', PStr ''.''), (''test'', PStr ''pytest tests/ --json''),
      (''lint'', PStr ''flake8 src/''),
      (''halt'', PDict [(''max'', PInt 5), (''threshold'', PFloat 0.9)])]"

definition example_submit_args :: pydict where
  "example_submit_args = [(''sid'', PStr ''s1''), (''reason'', PStr ''Test submission'')]"

section \<open>Availability probe (\<^verbatim>\<open>src/utils/command.py\<close>)\<close>

text \<open>
  The characters \<^verbatim>\<open>str.isspace\<close> accepts among the code points below 256:
  tab to carriage return, the four separators 28 to 31, the space, NEL (133) and the
  no-break space (160). \<^verbatim>\<open>str.split()\<close> splits at runs of them and yields no empty
  word.
\<close>

definition is_space :: "char \<Rightarrow> bool" where
  "is_space c \<longleftrightarrow> (of_char c :: nat) \<in> {9, 10, 11, 12, 13, 28, 29, 30, 31, 32, 133, 160}"

fun split_from :: "string \<Rightarrow> string \<Rightarrow> string list" where
  "split_from cur [] = (if cur = [] then [] else [cur])"
| "split_from cur (c # cs) =
     (if is_space c
      then (if cur = [] then split_from [] cs else cur # split_from [] cs)
      else split_from (cur @ [c]) cs)"

definition py_split :: "string \<Rightarrow> string list" where
  "py_split s = split_from [] s"

text \<open>
  The probe runs \<^verbatim>\<open>which cmd_name\<close> under a five-second timeout. The environment is
  the function \<open>which\<close>: the return code of the subprocess, or \<^term>\<open>None\<close> when
  \<^verbatim>\<open>subprocess.run\<close> raises (the timeout expired, \<^verbatim>\<open>which\<close> could not be started).
\<close>

definition first_word :: "string \<Rightarrow> py_error + string" where
  "first_word cmd = (case py_split cmd of [] \<Rightarrow> Inl IndexError | w # _ \<Rightarrow> Inr w)"

definition check_command_body :: "(string \<Rightarrow> int option) \<Rightarrow> string \<Rightarrow> py_error + bool" where
  "check_command_body which cmd =
     bind_err (if CHR '' '' \<in> set cmd then first_word cmd else Inr cmd) (\<lambda>cmd_name.
       case which cmd_name of
         None \<Rightarrow> Inl SubprocessError
       | Some returncode \<Rightarrow> Inr (returncode = 0))"

definition check_command_available :: "(string \<Rightarrow> int option) \<Rightarrow> string \<Rightarrow> bool" where
  "check_command_available which cmd =
     (case check_command_body which cmd of Inl e \<Rightarrow> False | Inr b \<Rightarrow> b)"

text \<open>
  The first whitespace-delimited token of a string, in the words of section 4.1 of the
  specification, and the commands whose whitespace is made of spaces only.
\<close>

definition first_token :: "string \<Rightarrow> string" where
  "first_token cmd = takeWhile (\<lambda>c. \<not> is_space c) (dropWhile is_space cmd)"

definition space_separated :: "string \<Rightarrow> bool" where
  "space_separated cmd \<longleftrightarrow> CHR '' '' \<in> set cmd \<or> (\<forall>c\<in>set cmd. \<not> is_space c)"

text \<open>An environment in which \<^verbatim>\<open>pytest\<close> is the only command on the path.\<close>

definition pytest_only :: "string \<Rightarrow> int option" where
  "pytest_only name = (if name = ''pytest'' then Some 0 else Some 1)"

text \<open>A command with a tab between its words, as a shell accepts it.\<close>

definition tab_separated_cmd :: string where
  "tab_separated_cmd = ''pytest'' @ [CHR 0x09] @ ''-v''"

section \<open>Sessions (\<^verbatim>\<open>src/types.py\<close>, \<^verbatim>\<open>src/shared/sessions.py\<close>)\<close>

record HaltConfig =
  max_steps :: int
  pass_threshold :: real
  patience_no_improve :: int
  min_steps :: int

record SessionConfig =
  repo_path :: string
  data_quality_cmd :: "string option"
  test_cmd :: "string option"
  lint_cmd :: "string option"
  perf_cmd :: "string option"
  timeout_sec :: int
  weights :: WeightsConfig
  halt :: HaltConfig

text \<open>
  The feedback lines of an evaluation are f-strings; as for the halting reasons, a line
  is represented by the message it is an instance of and the values it interpolates.
  \<open>PerfMeasured v d\<close> is the line of a first or improved measurement, \<open>d\<close> the
  improvement it reports, if any.
\<close>

datatype feedback_msg =
    DataQualityFailed string
  | DataQualityPassed
  | TestsFailed int int
  | TestsPassed int int
  | TestsUnparsed
  | LintErrors "string list"
  | LintPassed
  | PerfMeasured real "real option"
  | PerfRegressed real real
  | PerfUnparsed

record EvalResult =
  ok_data_quality :: "bool option"
  ok_lint :: "bool option"
  tests :: "TestResults option"
  perf :: "PerfResults option"
  score :: real
  ema_score :: real
  step :: int
  feedback :: "feedback_msg list"
  should_halt :: bool
  reasons :: "halt_reason list"

text \<open>
  The session state, with the fields the iteration engine reads or writes. The fields
  for checkpoints, snapshots and command status are written once by
  \<^verbatim>\<open>create_session\<close> and touched by no modelled function.
\<close>

record SessionState =
  id' :: string
  cfg :: SessionConfig
  step :: int
  best_score :: real
  ema_score :: real
  ema_alpha :: real
  no_improve_streak :: int
  history :: "EvalResult list"
  z_notes :: "string option"
  best_perf :: "real option"

definition DEFAULT_EMA_ALPHA :: real where
  "DEFAULT_EMA_ALPHA = 0.9"

type_synonym registry = "string \<rightharpoonup> SessionState"

text \<open>
  \<^verbatim>\<open>create_session\<close> draws the identifier from \<^verbatim>\<open>uuid.uuid4()\<close>; here it is the
  argument \<open>session_id\<close>. The function returns the session and the registry with the
  session stored.
\<close>

definition create_session ::
  "registry \<Rightarrow> string \<Rightarrow> string \<Rightarrow> string option \<Rightarrow> string option \<Rightarrow> string option \<Rightarrow>
   string option \<Rightarrow> int \<Rightarrow> WeightsConfig option \<Rightarrow> HaltConfig \<Rightarrow> real \<Rightarrow> string option \<Rightarrow>
   SessionState \<times> registry" where
  "create_session sessions session_id repo_path' data_quality_cmd' test_cmd' lint_cmd' perf_cmd'
       timeout_sec' weights' halt' ema_alpha' z_notes' =
     (let config = \<lparr>repo_path = repo_path', data_quality_cmd = data_quality_cmd',
                     test_cmd = test_cmd', lint_cmd = lint_cmd', perf_cmd = perf_cmd',
                     timeout_sec = timeout_sec',
                     weights = (case weights' of None \<Rightarrow> DEFAULT_WEIGHTS | Some w \<Rightarrow> w),
                     halt = halt'\<rparr>;
          session = \<lparr>id' = session_id, cfg = config, step = 0, best_score = 0,
                      ema_score = 0,
                      ema_alpha = (if ema_alpha' = 0 then DEFAULT_EMA_ALPHA else ema_alpha'),
                      no_improve_streak = 0, history = [], z_notes = z_notes',
                      best_perf = None\<rparr>
      in (session, sessions(session_id \<mapsto> session)))"


definition delete_session :: "registry \<Rightarrow> string \<Rightarrow> bool \<times> registry" where
  "delete_session sessions session_id =
     (if session_id \<in> dom sessions then (True, sessions(session_id := None))
      else (False, sessions))"

section \<open>File reader (\<^verbatim>\<open>handle_get_file_content\<close>, \<^verbatim>\<open>src/server.py\<close>)\<close>















record GetFileContentArgs =
  session_id :: string
  paths :: "string list"












section \<open>Regular expressions (\<^verbatim>\<open>re\<close>)\<close>

text \<open>
  The patterns of \<^verbatim>\<open>src/utils/parser.py\<close> use single characters and character
  classes, greedy repetition of a class, sequences, greedy optional groups, the
  multi-line anchors and one capturing group. \<open>rmatch r s k\<close> matches \<open>r\<close> at the
  start of \<open>s\<close> and passes the rest of the input to the continuation \<open>k\<close>; when the
  continuation fails, the next alternative of \<open>r\<close> is tried, the longer match first.
  This is the order in which the backtracking matcher of \<^verbatim>\<open>re\<close> explores a pattern.
\<close>

datatype rx =
    One "char \<Rightarrow> bool"
  | Many "char \<Rightarrow> bool"
  | Seq rx rx
  | Opt rx
  | Eol
  | Eps

fun rmatch :: "rx \<Rightarrow> string \<Rightarrow> (string \<Rightarrow> 'a option) \<Rightarrow> 'a option" where
  "rmatch (One p) s k = (case s of [] \<Rightarrow> None | c # cs \<Rightarrow> if p c then k cs else None)"
| "rmatch (Many p) s k =
     (case s of
        [] \<Rightarrow> k []
      | c # cs \<Rightarrow>
          if p c
          then (case rmatch (Many p) cs k of Some r \<Rightarrow> Some r | None \<Rightarrow> k (c # cs))
          else k (c # cs))"
| "rmatch (Seq a b) s k = rmatch a s (\<lambda>t. rmatch b t k)"
| "rmatch (Opt a) s k = (case rmatch a s k of Some r \<Rightarrow> Some r | None \<Rightarrow> k s)"
| "rmatch Eol s k = (case s of [] \<Rightarrow> k [] | c # cs \<Rightarrow> if c = CHR 0x0A then k (c # cs) else None)"
| "rmatch Eps s k = k s"

text \<open>
  A pattern with one capturing group is the triple of what stands before the group,
  the group, and what stands after it. \<open>match_here\<close> is \<^verbatim>\<open>re.match\<close> returning
  \<^verbatim>\<open>group(1)\<close>; \<open>re_search\<close> tries every start position from the left, and
  \<open>re_search_lines\<close> only the positions where \<^verbatim>\<open>^\<close> holds in multi-line mode.
\<close>

definition match_here :: "rx \<Rightarrow> rx \<Rightarrow> rx \<Rightarrow> string \<Rightarrow> string option" where
  "match_here pre grp post s =
     rmatch pre s (\<lambda>s1. rmatch grp s1 (\<lambda>s2. rmatch post s2
       (\<lambda>s3. Some (take (length s1 - length s2) s1))))"

fun re_search :: "rx \<Rightarrow> rx \<Rightarrow> rx \<Rightarrow> string \<Rightarrow> string option" where
  "re_search pre grp post [] = match_here pre grp post []"
| "re_search pre grp post (c # cs) =
     (case match_here pre grp post (c # cs) of
        Some g \<Rightarrow> Some g
      | None \<Rightarrow> re_search pre grp post cs)"

fun re_search_lines :: "bool \<Rightarrow> rx \<Rightarrow> rx \<Rightarrow> rx \<Rightarrow> string \<Rightarrow> string option" where
  "re_search_lines bol pre grp post [] = (if bol then match_here pre grp post [] else None)"
| "re_search_lines bol pre grp post (c # cs) =
     (case (if bol then match_here pre grp post (c # cs) else None) of
        Some g \<Rightarrow> Some g
      | None \<Rightarrow> re_search_lines (c = CHR 0x0A) pre grp post cs)"

definition is_digit :: "char \<Rightarrow> bool" where
  "is_digit c \<longleftrightarrow> 48 \<le> (of_char c :: nat) \<and> (of_char c :: nat) \<le> 57"

definition ascii_lower :: "char \<Rightarrow> char" where
  "ascii_lower c =
     (if 65 \<le> (of_char c :: nat) \<and> (of_char c :: nat) \<le> 90
      then char_of ((of_char c :: nat) + 32) else c)"

definition lit :: "string \<Rightarrow> rx" where
  "lit s = foldr (\<lambda>c r. Seq (One (\<lambda>x. x = c)) r) s Eps"

text \<open>A literal under \<^verbatim>\<open>re.IGNORECASE\<close>; the literal is given in lower case.\<close>

definition lit_i :: "string \<Rightarrow> rx" where
  "lit_i s = foldr (\<lambda>c r. Seq (One (\<lambda>x. ascii_lower x = c)) r) s Eps"

definition digits1 :: rx where
  "digits1 = Seq (One is_digit) (Many is_digit)"

text \<open>The group \<^verbatim>\<open>(\d+(?:\.\d+)?)\<close>.\<close>

definition number_rx :: rx where
  "number_rx = Seq digits1 (Opt (Seq (One (\<lambda>x. x = CHR ''.'')) digits1))"

text \<open>\<^verbatim>\<open>int\<close> and \<^verbatim>\<open>float\<close> on a string the group \<open>number_rx\<close> matched.\<close>

definition int_of_digits :: "string \<Rightarrow> int" where
  "int_of_digits ds = foldl (\<lambda>n c. 10 * n + (of_char c - 48)) 0 ds"

definition float_of_decimal :: "string \<Rightarrow> real" where
  "float_of_decimal g =
     (let ip = takeWhile (\<lambda>c. c \<noteq> CHR ''.'') g;
          fp = drop (Suc (length ip)) g
      in real_of_int (int_of_digits ip) + real_of_int (int_of_digits fp) / 10 ^ length fp)"

text \<open>
  The three unit patterns of \<^verbatim>\<open>parse_performance_metric\<close>, each the part after the
  number group. The source writes the second one in a raw string that ends in
  \<^verbatim>\<open>\\b\<close>: an escaped backslash followed by the letter b.
\<close>

definition ms_suffix :: rx where
  "ms_suffix = Seq (Many is_space) (lit_i ''ms'')"

definition sec_suffix :: rx where
  "sec_suffix =
     Seq (Many is_space)
       (Seq (lit_i ''s'')
         (Seq (Opt (Seq (lit_i ''ec'') (Seq (Opt (lit_i ''ond'')) (Opt (lit_i ''s'')))))
              (lit_i [CHR 0x5C, CHR ''b''])))"

definition min_suffix :: rx where
  "min_suffix =
     Seq (Many is_space)
       (Seq (lit_i ''m'')
         (Opt (Seq (lit_i ''in'') (Seq (Opt (lit_i ''ute'')) (Opt (lit_i ''s''))))))"

definition patterns :: "(rx \<times> real) list" where
  "patterns = [(ms_suffix, 0.001), (sec_suffix, 1.0), (min_suffix, 60.0)]"

fun first_pattern :: "(rx \<times> real) list \<Rightarrow> string \<Rightarrow> real option" where
  "first_pattern [] output = None"
| "first_pattern ((suffix, multiplier) # ps) output =
     (case re_search Eps number_rx suffix output of
        Some g \<Rightarrow> Some (float_of_decimal g * multiplier)
      | None \<Rightarrow> first_pattern ps output)"

definition standalone_number :: "string \<Rightarrow> real option" where
  "standalone_number output =
     map_option float_of_decimal
       (re_search_lines True (Many is_space) number_rx (Seq (Many is_space) Eol) output)"

definition parse_patterns :: "string \<Rightarrow> real option" where
  "parse_patterns output =
     (case first_pattern patterns output of
        Some v \<Rightarrow> Some v
      | None \<Rightarrow> standalone_number output)"

section \<open>JSON decoding (\<^verbatim>\<open>json.loads\<close>)\<close>

text \<open>
  \<^verbatim>\<open>json.loads\<close> of the standard library, on the grammar it accepts: white space is
  space, tab, line feed and carriage return; a string may not hold a control character;
  a number with a fraction or an exponent is a float, any other an int; duplicate keys
  keep the last value. The result is \<open>Unmodelled\<close> where the decoded value is not
  represented here: a \<^verbatim>\<open>\u\<close> escape, and the constants \<^verbatim>\<open>NaN\<close>, \<^verbatim>\<open>Infinity\<close> and
  \<^verbatim>\<open>-Infinity\<close> that Python accepts. The recursion limit of the interpreter is not
  modelled; the decoder carries fuel, twice the length of the input, which bounds the
  nesting of any document.
\<close>

definition json_ws :: "char \<Rightarrow> bool" where
  "json_ws c \<longleftrightarrow> c = CHR '' '' \<or> c = CHR 0x09 \<or> c = CHR 0x0A \<or> c = CHR 0x0D"

definition skip_ws :: "string \<Rightarrow> string" where
  "skip_ws s = dropWhile json_ws s"

fun starts_with :: "string \<Rightarrow> string \<Rightarrow> bool" where
  "starts_with [] s = True"
| "starts_with (p # ps) [] = False"
| "starts_with (p # ps) (c # cs) = (p = c \<and> starts_with ps cs)"

definition unescape :: "char \<Rightarrow> char option" where
  "unescape e =
     (if e = CHR 0x22 then Some (CHR 0x22)
      else if e = CHR 0x5C then Some (CHR 0x5C)
      else if e = CHR ''/'' then Some (CHR ''/'')
      else if e = CHR ''b'' then Some (CHR 0x08)
      else if e = CHR ''f'' then Some (CHR 0x0C)
      else if e = CHR ''n'' then Some (CHR 0x0A)
      else if e = CHR ''r'' then Some (CHR 0x0D)
      else if e = CHR ''t'' then Some (CHR 0x09)
      else None)"

fun scanstring :: "string \<Rightarrow> string \<Rightarrow> py_error + (string \<times> string)" where
  "scanstring acc [] = Inl JSONDecodeError"
| "scanstring acc [c] =
     (if c = CHR 0x22 then Inr (acc, []) else Inl JSONDecodeError)"
| "scanstring acc (c # e # cs) =
     (if c = CHR 0x22 then Inr (acc, e # cs)
      else if c = CHR 0x5C
      then (if e = CHR ''u'' then Inl Unmodelled
            else (case unescape e of
                    None \<Rightarrow> Inl JSONDecodeError
                  | Some d \<Rightarrow> scanstring (acc @ [d]) cs))
      else if (of_char c :: nat) < 32 then Inl JSONDecodeError
      else scanstring (acc @ [c]) (e # cs))"

text \<open>
  The number pattern of the scanner,
  \<^verbatim>\<open>(-?(?:0|[1-9][0-9]*))(\.[0-9]+)?([eE][-+]?[0-9]+)?\<close>, as three readers that each
  return what they matched and the rest.
\<close>

definition scan_integer :: "string \<Rightarrow> (string \<times> string) option" where
  "scan_integer s =
     (case s of
        [] \<Rightarrow> None
      | c # cs \<Rightarrow>
          if c = CHR ''0'' then Some ([c], cs)
          else if is_digit c then Some (c # takeWhile is_digit cs, dropWhile is_digit cs)
          else None)"

definition scan_frac :: "string \<Rightarrow> (string \<times> string) option" where
  "scan_frac s =
     (case s of
        c # d # cs \<Rightarrow>
          if c = CHR ''.'' \<and> is_digit d
          then Some (d # takeWhile is_digit cs, dropWhile is_digit cs)
          else None
      | _ \<Rightarrow> None)"

definition scan_exp :: "string \<Rightarrow> (int \<times> string) option" where
  "scan_exp s =
     (case s of
        [] \<Rightarrow> None
      | e # cs \<Rightarrow>
          if e = CHR ''e'' \<or> e = CHR ''E''
          then (let neg = (case cs of [] \<Rightarrow> False | g # _ \<Rightarrow> g = CHR ''-'');
                    signed = (case cs of [] \<Rightarrow> False | g # _ \<Rightarrow> g = CHR ''-'' \<or> g = CHR ''+'');
                    ds = (if signed then tl cs else cs)
                in if ds \<noteq> [] \<and> is_digit (hd ds)
                   then Some ((if neg then - 1 else 1) * int_of_digits (takeWhile is_digit ds),
                              dropWhile is_digit ds)
                   else None)
          else None)"

definition pow10 :: "int \<Rightarrow> real" where
  "pow10 e = (if e \<ge> 0 then 10 ^ nat e else 1 / 10 ^ nat (- e))"

definition scan_number :: "string \<Rightarrow> (pyval \<times> string) option" where
  "scan_number s =
     (let neg = (case s of [] \<Rightarrow> False | c # _ \<Rightarrow> c = CHR ''-'');
          sgn = (if neg then - 1 else 1)
      in case scan_integer (if neg then tl s else s) of
           None \<Rightarrow> None
         | Some (ip, r1) \<Rightarrow>
             (case scan_frac r1 of
                None \<Rightarrow>
                  (case scan_exp r1 of
                     None \<Rightarrow> Some (PInt (sgn * int_of_digits ip), r1)
                   | Some (e, r3) \<Rightarrow>
                       Some (PFloat (real_of_int sgn * real_of_int (int_of_digits ip) * pow10 e), r3))
              | Some (fp, r2) \<Rightarrow>
                  (let m = real_of_int (int_of_digits ip) + real_of_int (int_of_digits fp) / 10 ^ length fp
                   in case scan_exp r2 of
                        None \<Rightarrow> Some (PFloat (real_of_int sgn * m), r2)
                      | Some (e, r3) \<Rightarrow> Some (PFloat (real_of_int sgn * m * pow10 e), r3))))"

definition scan_atom :: "string \<Rightarrow> py_error + (pyval \<times> string)" where
  "scan_atom s =
     (if starts_with ''null'' s then Inr (PNone, drop 4 s)
      else if starts_with ''true'' s then Inr (PBool True, drop 4 s)
      else if starts_with ''false'' s then Inr (PBool False, drop 5 s)
      else (case scan_number s of
              Some r \<Rightarrow> Inr r
            | None \<Rightarrow>
                if starts_with ''NaN'' s \<or> starts_with ''Infinity'' s \<or> starts_with ''-Infinity'' s
                then Inl Unmodelled
                else Inl JSONDecodeError))"

fun scan_once :: "nat \<Rightarrow> string \<Rightarrow> py_error + (pyval \<times> string)"
  and scan_array :: "nat \<Rightarrow> pyval list \<Rightarrow> string \<Rightarrow> py_error + (pyval \<times> string)"
  and scan_object :: "nat \<Rightarrow> pydict \<Rightarrow> string \<Rightarrow> py_error + (pyval \<times> string)" where
  "scan_once 0 s = Inl Unmodelled"
| "scan_once (Suc n) [] = Inl JSONDecodeError"
| "scan_once (Suc n) (c # cs) =
     (if c = CHR 0x22
      then (case scanstring [] cs of Inl e \<Rightarrow> Inl e | Inr (str, r) \<Rightarrow> Inr (PStr str, r))
      else if c = CHR ''{''
      then (if starts_with ''}'' (skip_ws cs) then Inr (PDict [], tl (skip_ws cs))
            else scan_object n [] (skip_ws cs))
      else if c = CHR ''[''
      then (if starts_with '']'' (skip_ws cs) then Inr (PList [], tl (skip_ws cs))
            else scan_array n [] (skip_ws cs))
      else scan_atom (c # cs))"
| "scan_array 0 acc s = Inl Unmodelled"
| "scan_array (Suc n) acc s =
     (case scan_once n s of
        Inl e \<Rightarrow> Inl e
      | Inr (v, r) \<Rightarrow>
          if starts_with '']'' (skip_ws r) then Inr (PList (acc @ [v]), tl (skip_ws r))
          else if starts_with '','' (skip_ws r)
          then scan_array n (acc @ [v]) (skip_ws (tl (skip_ws r)))
          else Inl JSONDecodeError)"
| "scan_object 0 acc s = Inl Unmodelled"
| "scan_object (Suc n) acc s =
     (if \<not> starts_with [CHR 0x22] s then Inl JSONDecodeError
      else (case scanstring [] (tl s) of
              Inl e \<Rightarrow> Inl e
            | Inr (key, r1) \<Rightarrow>
                if \<not> starts_with '':'' (skip_ws r1) then Inl JSONDecodeError
                else (case scan_once n (skip_ws (tl (skip_ws r1))) of
                        Inl e \<Rightarrow> Inl e
                      | Inr (v, r2) \<Rightarrow>
                          if starts_with ''}'' (skip_ws r2)
                          then Inr (PDict (dict_set acc key v), tl (skip_ws r2))
                          else if starts_with '','' (skip_ws r2)
                          then scan_object n (dict_set acc key v) (skip_ws (tl (skip_ws r2)))
                          else Inl JSONDecodeError)))"

definition json_loads :: "string \<Rightarrow> py_error + pyval" where
  "json_loads s =
     (case scan_once (2 * length s + 2) (skip_ws s) of
        Inl e \<Rightarrow> Inl e
      | Inr (obj, r) \<Rightarrow> if skip_ws r = [] then Inr obj else Inl JSONDecodeError)"

section \<open>Operations on Python values\<close>

fun contains :: "string \<Rightarrow> string \<Rightarrow> bool" where
  "contains p [] = (p = [])"
| "contains p (c # cs) = (starts_with p (c # cs) \<or> contains p cs)"

text \<open>\<^verbatim>\<open>key in data\<close>, \<^verbatim>\<open>data[key]\<close> and \<^verbatim>\<open>a + b\<close> on decoded values.\<close>

definition py_contains :: "pyval \<Rightarrow> string \<Rightarrow> py_error + bool" where
  "py_contains data key =
     (case data of
        PDict d \<Rightarrow> Inr (dict_has d key)
      | PList xs \<Rightarrow> Inr (PStr key \<in> set xs)
      | PStr s \<Rightarrow> Inr (contains key s)
      | _ \<Rightarrow> Inl TypeError)"

definition py_subscript :: "pyval \<Rightarrow> string \<Rightarrow> py_error + pyval" where
  "py_subscript data key =
     (case data of
        PDict d \<Rightarrow> (case map_of d key of None \<Rightarrow> Inl KeyError | Some v \<Rightarrow> Inr v)
      | _ \<Rightarrow> Inl TypeError)"

definition as_number :: "pyval \<Rightarrow> (bool \<times> real) option" where
  "as_number v =
     (case v of
        PBool b \<Rightarrow> Some (True, if b then 1 else 0)
      | PInt i \<Rightarrow> Some (True, real_of_int i)
      | PFloat r \<Rightarrow> Some (False, r)
      | _ \<Rightarrow> None)"

definition py_add :: "pyval \<Rightarrow> pyval \<Rightarrow> py_error + pyval" where
  "py_add a b =
     (case (a, b) of
        (PStr x, PStr y) \<Rightarrow> Inr (PStr (x @ y))
      | (PList x, PList y) \<Rightarrow> Inr (PList (x @ y))
      | _ \<Rightarrow>
          (case (as_number a, as_number b) of
             (Some (ia, x), Some (ib, y)) \<Rightarrow>
               if ia \<and> ib then Inr (PInt (\<lfloor>x\<rfloor> + \<lfloor>y\<rfloor>)) else Inr (PFloat (x + y))
           | _ \<Rightarrow> Inl TypeError))"

text \<open>
  \<^verbatim>\<open>float(s)\<close> on a string: a plain decimal is converted; a string without a digit
  that does not spell infinity or not-a-number raises \<^verbatim>\<open>ValueError\<close>; the other
  forms \<^verbatim>\<open>float\<close> accepts (exponents, underscores, infinities) are not represented.
\<close>

definition strip :: "string \<Rightarrow> string" where
  "strip s = rev (dropWhile is_space (rev (dropWhile is_space s)))"

definition plain_decimal :: "string \<Rightarrow> bool" where
  "plain_decimal s \<longleftrightarrow>
     (let ip = takeWhile is_digit s; r = dropWhile is_digit s
      in ip \<noteq> [] \<and> (r = [] \<or> (hd r = CHR ''.'' \<and> tl r \<noteq> [] \<and> list_all is_digit (tl r))))"

definition str_float :: "string \<Rightarrow> py_error + real" where
  "str_float s =
     (let t = strip s;
          neg = (t \<noteq> [] \<and> hd t = CHR ''-'');
          u = (if t \<noteq> [] \<and> (hd t = CHR ''-'' \<or> hd t = CHR ''+'') then tl t else t)
      in if plain_decimal u
         then Inr ((if neg then - 1 else 1) * float_of_decimal u)
         else if \<not> list_ex is_digit u \<and>
                 map ascii_lower u \<notin> set [''inf'', ''infinity'', ''nan'']
         then Inl ValueError
         else Inl Unmodelled)"

definition py_float :: "pyval \<Rightarrow> py_error + real" where
  "py_float v =
     (case v of
        PBool b \<Rightarrow> Inr (if b then 1 else 0)
      | PInt i \<Rightarrow> if \<bar>i\<bar> < 2 ^ 1024 then Inr (real_of_int i) else Inl OverflowError
      | PFloat r \<Rightarrow> Inr r
      | PStr s \<Rightarrow> str_float s
      | _ \<Rightarrow> Inl TypeError)"

section \<open>Output parsers (\<^verbatim>\<open>src/utils/parser.py\<close>)\<close>

text \<open>
  The record \<^verbatim>\<open>TestResults\<close> declares integer counts. The JSON branch of
  \<^verbatim>\<open>parse_pytest_output\<close> stores whatever the document holds; where a count is not
  an integer the result is \<open>Unmodelled\<close>.
\<close>

definition make_results :: "pyval \<Rightarrow> pyval \<Rightarrow> pyval \<Rightarrow> string \<Rightarrow> py_error + TestResults option" where
  "make_results passed' failed' total' output =
     (case (passed', failed', total') of
        (PInt p, PInt f, PInt t) \<Rightarrow> Inr (Some \<lparr>passed = p, failed = f, total = t, raw = Some output\<rparr>)
      | _ \<Rightarrow> Inl Unmodelled)"

definition read_counts :: "pyval \<Rightarrow> string \<Rightarrow> py_error + TestResults option" where
  "read_counts src output =
     bind_err (attr_get src ''passed'' (PInt 0)) (\<lambda>passed'.
     bind_err (attr_get src ''failed'' (PInt 0)) (\<lambda>failed'.
     bind_err (py_add passed' failed') (\<lambda>dflt.
     bind_err (attr_get src ''total'' dflt) (\<lambda>total'.
       make_results passed' failed' total' output))))"

text \<open>
  The body of the \<^verbatim>\<open>try\<close> block after \<^verbatim>\<open>json.loads\<close>: \<^term>\<open>Inr None\<close> when the
  block ends without returning.
\<close>

definition pytest_json :: "pyval \<Rightarrow> string \<Rightarrow> py_error + TestResults option" where
  "pytest_json data output =
     bind_err (py_contains data ''tests'') (\<lambda>has_tests.
       if has_tests then read_counts data output
       else bind_err (py_contains data ''summary'') (\<lambda>has_summary.
         if has_summary
         then bind_err (py_subscript data ''summary'') (\<lambda>summary. read_counts summary output)
         else Inr None))"

definition search_count :: "string \<Rightarrow> string \<Rightarrow> string option" where
  "search_count word output = re_search Eps digits1 (lit (CHR '' '' # word)) output"

definition py_lower :: "string \<Rightarrow> string" where
  "py_lower s =
     map (\<lambda>c. if (65 \<le> (of_char c :: nat) \<and> (of_char c :: nat) \<le> 90) \<or>
                  (192 \<le> (of_char c :: nat) \<and> (of_char c :: nat) \<le> 222 \<and> (of_char c :: nat) \<noteq> 215)
               then char_of ((of_char c :: nat) + 32) else c) s"

definition pytest_text :: "string \<Rightarrow> TestResults option" where
  "pytest_text output =
     (let passed_match = search_count ''passed'' output;
          failed_match = search_count ''failed'' output
      in if passed_match \<noteq> None \<or> failed_match \<noteq> None
         then (let passed' = (case passed_match of Some g \<Rightarrow> int_of_digits g | None \<Rightarrow> 0);
                   failed' = (case failed_match of Some g \<Rightarrow> int_of_digits g | None \<Rightarrow> 0);
                   total' = passed' + failed'
               in Some \<lparr>passed = passed', failed = failed', total = total', raw = Some output\<rparr>)
         else if contains ''no tests ran'' (py_lower output) \<or>
                 contains ''no tests collected'' (py_lower output)
         then Some \<lparr>passed = 0, failed = 0, total = 0, raw = Some output\<rparr>
         else None)"

definition parse_pytest_output :: "string \<Rightarrow> py_error + TestResults option" where
  "parse_pytest_output output =
     (case bind_err (json_loads output) (\<lambda>data. pytest_json data output) of
        Inr (Some r) \<Rightarrow> Inr (Some r)
      | Inr None \<Rightarrow> Inr (pytest_text output)
      | Inl e \<Rightarrow>
          if e = JSONDecodeError \<or> e = KeyError then Inr (pytest_text output) else Inl e)"

definition parse_unittest_output :: "string \<Rightarrow> TestResults option" where
  "parse_unittest_output output =
     (case re_search (lit ''Ran '') digits1 (lit '' test'') output of
        None \<Rightarrow> None
      | Some g \<Rightarrow>
          (let total' = int_of_digits g in
           if re_search (lit ([CHR 0x5C] @ ''bOK'' @ [CHR 0x5C] @ ''b'')) Eps Eps output \<noteq> None
           then Some \<lparr>passed = total', failed = 0, total = total', raw = Some output\<rparr>
           else
             (case re_search
                     (Seq (lit ''FAILED'')
                       (Seq (Many (\<lambda>c. c \<noteq> CHR 0x0A))
                         (Seq (lit ''failure'') (Seq (Opt (lit ''s'')) (lit ''='')))))
                     digits1 Eps output of
                Some f \<Rightarrow>
                  (let failed' = int_of_digits f; passed' = total' - failed'
                   in Some \<lparr>passed = passed', failed = failed', total = total', raw = Some output\<rparr>)
              | None \<Rightarrow>
                  (case re_search (Seq (lit ''error'') (Seq (Opt (lit ''s'')) (lit ''=''))) digits1 Eps
                          output of
                     Some e \<Rightarrow>
                       (let errors = int_of_digits e; passed' = total' - errors
                        in Some \<lparr>passed = passed', failed = errors, total = total', raw = Some output\<rparr>)
                   | None \<Rightarrow>
                       if contains ''OK'' output
                       then Some \<lparr>passed = total', failed = 0, total = total', raw = Some output\<rparr>
                       else None))))"

definition parse_test_output :: "string \<Rightarrow> string \<Rightarrow> py_error + TestResults option" where
  "parse_test_output output framework =
     (if framework = ''pytest'' then parse_pytest_output output
      else if framework = ''unittest'' then Inr (parse_unittest_output output)
      else bind_err (parse_pytest_output output) (\<lambda>result.
             if result = None then Inr (parse_unittest_output output) else Inr result))"

fun perf_json :: "string list \<Rightarrow> pyval \<Rightarrow> py_error + real option" where
  "perf_json [] data = Inr None"
| "perf_json (key # keys) data =
     bind_err (py_contains data key) (\<lambda>present.
       if present
       then bind_err (py_subscript data key) (\<lambda>v.
            bind_err (py_float v) (\<lambda>value'.
              Inr (Some (if value' < 10000 then value' else value' / 1000))))
       else perf_json keys data)"

definition parse_performance_metric :: "string \<Rightarrow> py_error + real option" where
  "parse_performance_metric output =
     (case bind_err (json_loads output)
             (perf_json [''time'', ''duration'', ''runtime'', ''elapsed'', ''seconds'']) of
        Inr (Some v) \<Rightarrow> Inr (Some v)
      | Inr None \<Rightarrow> Inr (parse_patterns output)
      | Inl e \<Rightarrow>
          if e = JSONDecodeError \<or> e = KeyError \<or> e = ValueError
          then Inr (parse_patterns output) else Inl e)"

section \<open>Evaluation pipeline (\<^verbatim>\<open>src/tools/handlers/lib/evaluation.py\<close>)\<close>

record CommandResult =
  ok :: bool
  stdout :: string
  stderr :: string
  exit_code :: int

text \<open>
  \<^verbatim>\<open>run_command\<close> runs a subprocess; what the subprocess does is the environment.
  A \<open>runner\<close> gives, for one evaluation, the result of each probe's command.
\<close>

datatype probe = DataQualityProbe | TestProbe | LintProbe | PerfProbe

type_synonym runner = "probe \<Rightarrow> string \<Rightarrow> CommandResult"

text \<open>The truth value of an optional command: \<^verbatim>\<open>None\<close> and the empty string are false.\<close>

definition configured :: "string option \<Rightarrow> string option" where
  "configured c = (case c of None \<Rightarrow> None | Some cmd \<Rightarrow> if cmd = [] then None else Some cmd)"

text \<open>
  The source joins the two streams with the string literal \<^verbatim>\<open>"\\n"\<close>, a backslash
  followed by the letter n, and splits the lint errors at the same two characters.
\<close>

definition backslash_n :: string where
  "backslash_n = [CHR 0x5C, CHR ''n'']"

definition combined_output :: "CommandResult \<Rightarrow> string" where
  "combined_output result = stdout result @ backslash_n @ stderr result"

fun split_backslash_n :: "string \<Rightarrow> string \<Rightarrow> string list" where
  "split_backslash_n cur (a # b # cs) =
     (if a = CHR 0x5C \<and> b = CHR ''n'' then cur # split_backslash_n [] cs
      else split_backslash_n (cur @ [a]) (b # cs))"
| "split_backslash_n cur [a] = [cur @ [a]]"
| "split_backslash_n cur [] = [cur]"

definition data_quality_probe :: "runner \<Rightarrow> SessionConfig \<Rightarrow> bool option \<times> feedback_msg list" where
  "data_quality_probe run_command config =
     (case configured (data_quality_cmd config) of
        None \<Rightarrow> (None, [])
      | Some cmd \<Rightarrow>
          (let result = run_command DataQualityProbe cmd
           in (Some (ok result),
               [if \<not> ok result then DataQualityFailed (take 200 (stderr result))
                else DataQualityPassed])))"

definition tests_feedback :: "TestResults option \<Rightarrow> feedback_msg" where
  "tests_feedback t =
     (case t of
        Some r \<Rightarrow> if failed r > 0 then TestsFailed (failed r) (total r)
                  else TestsPassed (passed r) (total r)
      | None \<Rightarrow> TestsUnparsed)"

definition test_probe ::
  "runner \<Rightarrow> SessionConfig \<Rightarrow> py_error + (TestResults option \<times> feedback_msg list)" where
  "test_probe run_command config =
     (case configured (test_cmd config) of
        None \<Rightarrow> Inr (None, [])
      | Some cmd \<Rightarrow>
          (let result = run_command TestProbe cmd
           in bind_err (parse_test_output (combined_output result) ''pytest'')
                (\<lambda>t. Inr (t, [tests_feedback t]))))"

definition lint_probe :: "runner \<Rightarrow> SessionConfig \<Rightarrow> bool option \<times> feedback_msg list" where
  "lint_probe run_command config =
     (case configured (lint_cmd config) of
        None \<Rightarrow> (None, [])
      | Some cmd \<Rightarrow>
          (let result = run_command LintProbe cmd
           in (Some (ok result),
               [if \<not> ok result
                then (let stderr_lines = split_backslash_n [] (stderr result);
                          error_summary = (if length stderr_lines > 5
                                           then drop (length stderr_lines - 5) stderr_lines
                                           else stderr_lines)
                      in LintErrors error_summary)
                else LintPassed])))"

text \<open>
  The performance block. Its third result is \<^verbatim>\<open>session.best_perf\<close> after the
  block: the assignment \<^verbatim>\<open>session.best_perf = perf_value\<close> stands inside
  \<^verbatim>\<open>if session.best_perf is not None\<close>.
\<close>

definition record_perf ::
  "arith \<Rightarrow> real \<Rightarrow> real option \<Rightarrow> feedback_msg \<times> real option" where
  "record_perf ar perf_value best =
     (if (case best of None \<Rightarrow> True | Some b \<Rightarrow> perf_value < b)
      then (case best of
              None \<Rightarrow> (PerfMeasured perf_value None, best)
            | Some b \<Rightarrow> (PerfMeasured perf_value (Some (rnd ar (b - perf_value))),
                         Some perf_value))
      else (PerfRegressed perf_value (rnd ar (perf_value - the best)), best))"

definition perf_probe ::
  "arith \<Rightarrow> runner \<Rightarrow> SessionConfig \<Rightarrow> real option \<Rightarrow>
   py_error + (PerfResults option \<times> feedback_msg list \<times> real option)" where
  "perf_probe ar run_command config best =
     (case configured (perf_cmd config) of
        None \<Rightarrow> Inr (None, [], best)
      | Some cmd \<Rightarrow>
          (let result = run_command PerfProbe cmd
           in bind_err (parse_performance_metric (combined_output result))
                (\<lambda>perf_value.
                   case perf_value of
                     Some v \<Rightarrow>
                       (let (line, best') = record_perf ar v best
                        in Inr (Some \<lparr>value = v, unit = Some ''seconds''\<rparr>, [line], best'))
                   | None \<Rightarrow> Inr (None, [PerfUnparsed], best))))"

text \<open>
  Scoring and the state update, from the four signals. The session passed in already
  carries the \<^verbatim>\<open>best_perf\<close> the performance block left.
\<close>

definition score_and_update ::
  "arith \<Rightarrow> SessionState \<Rightarrow> bool option \<Rightarrow> bool option \<Rightarrow> TestResults option \<Rightarrow> PerfResults option \<Rightarrow>
   feedback_msg list \<Rightarrow> EvalResult \<times> SessionState" where
  "score_and_update ar session dq li ts pf fb =
     (let score' = calculate_weighted_score ar dq li ts pf (weights (cfg session)) (best_perf session);
          ema_score' = update_ema_score ar score'
                         (if SessionState.step session > 0 then SessionState.ema_score session
                          else score')
                         (ema_alpha session);
          new_step = SessionState.step session + 1;
          improved = score' > best_score session;
          no_improve_streak' = (if improved then 0 else no_improve_streak session + 1);
          best_score' = (if improved then score' else best_score session);
          tests_passed = (case ts of Some r \<Rightarrow> failed r = 0 | None \<Rightarrow> False);
          decision = should_halt_iteration new_step score' ema_score' no_improve_streak'
                       tests_passed (max_steps (halt (cfg session)))
                       (pass_threshold (halt (cfg session)))
                       (patience_no_improve (halt (cfg session)))
                       (min_steps (halt (cfg session)));
          eval_result = \<lparr>ok_data_quality = dq, ok_lint = li, tests = ts, perf = pf,
                          score = score', ema_score = ema_score', step = new_step,
                          feedback = fb, should_halt = fst decision, reasons = snd decision\<rparr>
      in (eval_result,
          session\<lparr>best_score := best_score', SessionState.step := new_step,
                    SessionState.ema_score := ema_score',
                    no_improve_streak := no_improve_streak',
                    history := history session @ [eval_result]\<rparr>))"

definition run_evaluation ::
  "arith \<Rightarrow> runner \<Rightarrow> SessionState \<Rightarrow> py_error + (EvalResult \<times> SessionState)" where
  "run_evaluation ar run_command session =
     (let dq = data_quality_probe run_command (cfg session)
      in bind_err (test_probe run_command (cfg session)) (\<lambda>ts.
           let li = lint_probe run_command (cfg session)
           in bind_err (perf_probe ar run_command (cfg session) (best_perf session)) (\<lambda>pf.
                Inr (score_and_update ar (session\<lparr>best_perf := snd (snd pf)\<rparr>)
                       (fst dq) (fst li) (fst ts) (fst pf)
                       (snd dq @ snd ts @ snd li @ fst (snd pf))))))"

text \<open>A session submitted to once per runner of a list, stopping at the first exception.\<close>

fun run_evaluations ::
  "arith \<Rightarrow> runner list \<Rightarrow> SessionState \<Rightarrow> py_error + SessionState" where
  "run_evaluations ar [] session = Inr session"
| "run_evaluations ar (r # rs) session =
     bind_err (run_evaluation ar r session) (\<lambda>res. run_evaluations ar rs (snd res))"

text \<open>
  The law of section 4.3 on a history, in the specification's words: the first entry's
  moving average is its score, and every later entry's is \<open>\<alpha>\<close> times its score plus
  \<open>1 - \<alpha>\<close> times the moving average of the entry before it.
\<close>

definition ema_law :: "real \<Rightarrow> EvalResult list \<Rightarrow> bool" where
  "ema_law \<alpha> h \<longleftrightarrow>
     (h \<noteq> [] \<longrightarrow> EvalResult.ema_score (h ! 0) = score (h ! 0)) \<and>
     (\<forall>i. 1 \<le> i \<and> i < length h \<longrightarrow>
        EvalResult.ema_score (h ! i) =
          \<alpha> * score (h ! i) + (1 - \<alpha>) * EvalResult.ema_score (h ! (i - 1)))"

text \<open>
  The same law as the interpreter computes it: the two products, the difference
  \<open>1 - \<alpha>\<close> and the sum are rounded, and the first entry's moving average is the
  rounded expression with the entry's own score in the place of the previous moving
  average.
\<close>

definition ema_recurrence :: "arith \<Rightarrow> real \<Rightarrow> EvalResult list \<Rightarrow> bool" where
  "ema_recurrence ar \<alpha> h \<longleftrightarrow>
     (h \<noteq> [] \<longrightarrow>
        EvalResult.ema_score (h ! 0) =
          rnd ar (rnd ar (\<alpha> * score (h ! 0)) + rnd ar (rnd ar (1 - \<alpha>) * score (h ! 0)))) \<and>
     (\<forall>i. 1 \<le> i \<and> i < length h \<longrightarrow>
        EvalResult.ema_score (h ! i) =
          rnd ar (rnd ar (\<alpha> * score (h ! i)) +
                  rnd ar (rnd ar (1 - \<alpha>) * EvalResult.ema_score (h ! (i - 1)))))"

text \<open>What the session keeps between evaluations, as the pipeline relies on it.\<close>

definition session_inv :: "arith \<Rightarrow> SessionState \<Rightarrow> bool" where
  "session_inv ar s \<longleftrightarrow>
     SessionState.step s = int (length (history s)) \<and>
     (history s \<noteq> [] \<longrightarrow> SessionState.ema_score s = EvalResult.ema_score (last (history s))) \<and>
     ema_recurrence ar (ema_alpha s) (history s)"

text \<open>
  The sessions of the examples, each with one command configured, and the results of
  their commands. \<open>lint_session\<close> holds the default weights and the smoothing factor
  0.9 as decimals; \<open>test_session\<close> and \<open>bench_session\<close> hold them as doubles.
\<close>

definition example_halt :: HaltConfig where
  "example_halt = \<lparr>max_steps = 5, pass_threshold = 0.9, patience_no_improve = 2, min_steps = 1\<rparr>"

definition lint_session :: SessionState where
  "lint_session =
     fst (create_session Map.empty ''s1'' ''/repo'' None None (Some ''flake8 src/'') None 120
            None example_halt 0.9 None)"

definition test_session :: SessionState where
  "test_session =
     fst (create_session Map.empty ''s2'' ''/repo'' None (Some ''pytest'') None None 120
            (Some (stored ieee DEFAULT_WEIGHTS)) example_halt (rnd ieee 0.9) None)"

definition bench_session :: SessionState where
  "bench_session =
     fst (create_session Map.empty ''s3'' ''/repo'' None None None (Some ''python bench.py'') 120
            (Some (stored ieee DEFAULT_WEIGHTS)) example_halt (rnd ieee 0.9) None)"

text \<open>A command that exits with \<open>code\<close> after writing \<open>out\<close> and \<open>err\<close>.\<close>

definition exits :: "int \<Rightarrow> string \<Rightarrow> string \<Rightarrow> runner" where
  "exits code out err p cmd = \<lparr>ok = (code = 0), stdout = out, stderr = err, exit_code = code\<rparr>"

(*DEFS-END*)

section \<open>Properties of the scoring module\<close>

text \<open>
  Claim C5. The docstring of \<^verbatim>\<open>calculate_weighted_score\<close> says ``Score is in [0, 1]
  range'', and the performance signal is capped with \<^verbatim>\<open>min(1.0, ...)\<close>. The test
  signal \<^verbatim>\<open>tests.passed / tests.total\<close> is not capped, and nothing relates the two
  counts of a \<^verbatim>\<open>TestResults\<close>. On a test result with 7 passed of a total of 3, the
  only signal present, and the default weights, the score is 7/3 in exact arithmetic
  and the double 2.3333333333333335 in the arithmetic of the interpreter: above 1.
\<close>

theorem weighted_score_above_one:
  "calculate_weighted_score ieee None None
     (Some \<lparr>passed = 7, failed = 0, total = 3, raw = None\<rparr>) None
     (stored ieee DEFAULT_WEIGHTS) None = 5254199565265579 / 2 ^ 51
   \<and> calculate_weighted_score ieee None None
     (Some \<lparr>passed = 7, failed = 0, total = 3, raw = None\<rparr>) None
     (stored ieee DEFAULT_WEIGHTS) None > 1
   \<and> calculate_weighted_score exact None None
     (Some \<lparr>passed = 7, failed = 0, total = 3, raw = None\<rparr>) None
     DEFAULT_WEIGHTS None = 7 / 3"
  by code_simp

text \<open>
  Claim C7. \<^verbatim>\<open>should_halt_iteration\<close> tries success, then plateau, then limit:
  the first rule that holds gives \<^verbatim>\<open>halt = True\<close> and its message as the only
  reason; when none holds the result is \<^verbatim>\<open>halt = False\<close> with the continue
  message. The reasons list always has exactly one element, and the halt flag is the
  disjunction of the three rules.
\<close>

theorem should_halt_priority_order:
  "should_halt_iteration n sc em streak tests_ok mx thr pat mn =
     (if success_rule n sc tests_ok thr mn then (True, [Success sc thr])
      else if plateau_rule streak pat then (True, [Plateau streak pat])
      else if limit_rule n mx then (True, [Limit mx])
      else (False, [Continue n mx sc em]))
   \<and> length (snd (should_halt_iteration n sc em streak tests_ok mx thr pat mn)) = 1
   \<and> (fst (should_halt_iteration n sc em streak tests_ok mx thr pat mn) \<longleftrightarrow>
        success_rule n sc tests_ok thr mn \<or> plateau_rule streak pat \<or> limit_rule n mx)"
  by (simp add: should_halt_iteration_def success_rule_def plateau_rule_def limit_rule_def)

section \<open>Properties of the parameter translator\<close>

lemma invert_keys_lookup:
  assumes "short_of tbl l = Some s" and "\<And>l'. short_of tbl l' = Some s \<Longrightarrow> l' = l"
  shows "map_of (invert_keys tbl d) s = map_of d l"
proof (induction d)
  case Nil
  show ?case by simp
next
  case (Cons a d)
  obtain l0 v where a: "a = (l0, v)" by (cases a)
  show ?case
  proof (cases "short_of tbl l0")
    case None
    then have "l0 \<noteq> l" using assms(1) by auto
    then show ?thesis using None Cons.IH by (simp add: a)
  next
    case (Some s0)
    show ?thesis
    proof (cases "s0 = s")
      case True
      then have "l0 = l" using Some assms(2) by simp
      then show ?thesis using Some True by (simp add: a)
    next
      case False
      then have "l0 \<noteq> l" using Some assms(1) by auto
      then show ?thesis using Some False Cons.IH by (simp add: a)
    qed
  qed
qed

lemma invert_keys_absent:
  assumes "\<And>l. short_of tbl l \<noteq> Some s"
  shows "map_of (invert_keys tbl d) s = None"
proof (induction d)
  case Nil
  show ?case by simp
next
  case (Cons a d)
  obtain l0 v where a: "a = (l0, v)" by (cases a)
  show ?case using Cons.IH assms [of l0] by (cases "short_of tbl l0") (auto simp: a)
qed

lemma filter_not_none_get:
  "distinct (map fst d) \<Longrightarrow>
   dict_get (filter (\<lambda>(k, v). v \<noteq> PNone) d) k PNone = dict_get d k PNone"
proof (induction d)
  case Nil
  show ?case by simp
next
  case (Cons a d)
  obtain k0 v where a: "a = (k0, v)" by (cases a)
  from Cons.prems have fresh: "k0 \<notin> fst ` set d" and dd: "distinct (map fst d)"
    by (simp_all add: a)
  have absent: "map_of (filter (\<lambda>(k, v). v \<noteq> PNone) d) k0 = None"
    using fresh by (auto simp: map_of_eq_None_iff image_iff)
  show ?case using Cons.IH [OF dd] absent
    by (auto simp: a dict_get_def)
qed

lemma filter_not_none_lookup:
  "distinct (map fst d) \<Longrightarrow> map_of d k = Some v \<Longrightarrow> v \<noteq> PNone \<Longrightarrow>
   map_of (filter (\<lambda>(k, v). v \<noteq> PNone) d) k = Some v"
proof (induction d)
  case Nil
  then show ?case by simp
next
  case (Cons a d)
  obtain k0 v0 where a: "a = (k0, v0)" by (cases a)
  from Cons.prems(1) have dd: "distinct (map fst d)" by (simp add: a)
  show ?case using Cons.IH [OF dd] Cons.prems(2,3) by (auto simp: a split: if_splits)
qed

lemma bind_err_Inr: "bind_err (Inr x) f = f x"
  by (simp add: bind_err_def)

lemma bind_err_Inl: "bind_err (Inl e) f = Inl e"
  by (simp add: bind_err_def)

lemma translate_weights_dict: "translate_weights (PDict w) = Inr (PDict (translated_weights w))"
  by (simp add: translate_weights_def attr_get_def bind_err_def translated_weights_def)

lemma translate_halt_dict: "translate_halt (PDict h) = Inr (PDict (translated_halt h))"
  by (simp add: translate_halt_def attr_get_def bind_err_def translated_halt_def)

lemma object_or_absent_cases:
  assumes "object_or_absent args k"
  obtains "map_of args k = None" | d where "map_of args k = Some (PDict d)"
  using assms by (auto simp: object_or_absent_def split: option.splits pyval.splits)

lemma translate_start_unfiltered:
  assumes w: "object_or_absent args ''weights''" and h: "object_or_absent args ''halt''"
  shows "translate_start args = Inr (filter (\<lambda>(k, v). v \<noteq> PNone) (start_unfiltered args))"
proof -
  let ?base = "start_scalars args"
  let ?W = "start_nested ''weights'' translated_weights args"
  let ?H = "start_nested ''halt'' translated_halt args"
  have step1:
    "(if dict_has args ''weights''
      then bind_err (translate_weights (dict_get args ''weights'' PNone))
             (\<lambda>w. Inr (dict_set ?base ''weights'' w))
      else Inr ?base) = Inr (?base @ ?W)"
  proof (rule object_or_absent_cases [OF w])
    assume "map_of args ''weights'' = None"
    then show ?thesis by (simp add: dict_has_def start_nested_def)
  next
    fix d assume "map_of args ''weights'' = Some (PDict d)"
    then show ?thesis
      by (simp add: dict_has_def dict_get_def start_nested_def translate_weights_dict
            bind_err_Inr start_scalars_def)
  qed
  have step2:
    "(if dict_has args ''halt''
      then bind_err (translate_halt (dict_get args ''halt'' PNone))
             (\<lambda>h. Inr (dict_set (?base @ ?W) ''halt'' h))
      else Inr (?base @ ?W)) = Inr (?base @ ?W @ ?H)"
  proof (rule object_or_absent_cases [OF h])
    assume "map_of args ''halt'' = None"
    then show ?thesis by (simp add: dict_has_def start_nested_def)
  next
    fix d assume hd: "map_of args ''halt'' = Some (PDict d)"
    have "dict_set (?base @ ?W) ''halt'' v = ?base @ ?W @ [(''halt'', v)]" for v
      by (rule object_or_absent_cases [OF w])
         (simp_all add: start_nested_def start_scalars_def)
    then show ?thesis using hd
      by (simp add: dict_has_def dict_get_def translate_halt_dict bind_err_Inr
            start_nested_def [of "''halt''"])
  qed
  show ?thesis
    unfolding translate_start_def Let_def start_scalars_def [symmetric]
    by (simp only: step1 step2 bind_err_Inr start_unfiltered_def)
qed

lemma dict_get_present: "dict_has d k \<Longrightarrow> dict_get d k dflt = dict_get d k PNone"
  by (auto simp: dict_has_def dict_get_def)

lemma start_nested_keys: "fst ` set (start_nested k f args) \<subseteq> {k}"
  by (auto simp: start_nested_def split: option.splits pyval.splits)

lemma start_nested_distinct: "distinct (map fst (start_nested k f args))"
  by (auto simp: start_nested_def split: option.splits pyval.splits)

lemma start_unfiltered_distinct: "distinct (map fst (start_unfiltered args))"
proof -
  have a: "distinct (map fst (start_scalars args))"
    by (simp add: start_scalars_def)
  have b: "k \<in> fst ` set (start_scalars args) \<Longrightarrow> k \<noteq> ''weights'' \<and> k \<noteq> ''halt''" for k
    by (auto simp: start_scalars_def)
  have w: "k \<in> fst ` set (start_nested ''weights'' translated_weights args) \<Longrightarrow> k = ''weights''" for k
    using start_nested_keys [of "''weights''" translated_weights args] by auto
  have h: "k \<in> fst ` set (start_nested ''halt'' translated_halt args) \<Longrightarrow> k = ''halt''" for k
    using start_nested_keys [of "''halt''" translated_halt args] by auto
  have wh: "fst ` set (start_nested ''weights'' translated_weights args) \<inter>
            fst ` set (start_nested ''halt'' translated_halt args) = {}"
  proof (rule ccontr)
    assume "\<not> ?thesis"
    then obtain k where "k \<in> fst ` set (start_nested ''weights'' translated_weights args)"
        and "k \<in> fst ` set (start_nested ''halt'' translated_halt args)" by blast
    then have "''weights'' = ''halt''" using w h by metis
    then show False by simp
  qed
  have sw: "fst ` set (start_scalars args) \<inter>
            (fst ` set (start_nested ''weights'' translated_weights args) \<union>
             fst ` set (start_nested ''halt'' translated_halt args)) = {}"
    using b w h by blast
  show ?thesis
    unfolding start_unfiltered_def
    using a sw wh start_nested_distinct [of "''weights''" translated_weights args]
          start_nested_distinct [of "''halt''" translated_halt args]
    by (simp only: map_append distinct_append set_map set_append image_Un simp_thms)
qed

lemma short_of_member: "short_of tbl l = Some s \<Longrightarrow> (s, l) \<in> set tbl"
  by (induction tbl) (auto split: if_splits)

lemma member_short_of:
  "distinct (map snd tbl) \<Longrightarrow> (s, l) \<in> set tbl \<Longrightarrow> short_of tbl l = Some s"
  by (induction tbl) (auto simp: image_iff)

lemma table_long_unique:
  "distinct (map fst tbl) \<Longrightarrow> (s, l) \<in> set tbl \<Longrightarrow> (s, l') \<in> set tbl \<Longrightarrow> l' = l"
  by (induction tbl) (auto simp: image_iff)

lemma invert_keys_table_lookup:
  assumes "distinct (map fst tbl)" and "distinct (map snd tbl)" and "(s, l) \<in> set tbl"
  shows "map_of (invert_keys tbl d) s = map_of d l"
proof (rule invert_keys_lookup)
  show "short_of tbl l = Some s" using assms by (simp add: member_short_of)
  show "l' = l" if "short_of tbl l' = Some s" for l'
    using that assms table_long_unique short_of_member by metis
qed

lemma invert_keys_table_absent:
  assumes "s \<notin> fst ` set tbl"
  shows "map_of (invert_keys tbl d) s = None"
proof (rule invert_keys_absent)
  show "short_of tbl l \<noteq> Some s" for l
    using assms short_of_member [of tbl l s] by force
qed

lemma map_of_append_left: "map_of ys k = None \<Longrightarrow> map_of (xs @ ys) k = map_of xs k"
  by (cases "map_of xs k") (simp_all add: map_add_def)

lemma map_of_append_Some: "map_of xs k = Some v \<Longrightarrow> map_of (xs @ ys) k = Some v"
  by (simp add: map_add_def)

lemma map_of_append_right: "map_of xs k = None \<Longrightarrow> map_of (xs @ ys) k = map_of ys k"
  by (simp add: map_add_def)

lemma start_keys_distinct: "distinct (map fst start_keys)" "distinct (map snd start_keys)"
  by (simp_all add: start_keys_def)

lemma start_scalars_lookup:
  assumes "(s, l) \<in> set start_keys"
  shows "map_of (start_scalars args) l = Some (dict_get args s (start_default s))"
proof -
  from assms have
    "(s = ''repo'' \<and> l = ''repo_path'') \<or> (s = ''dataQual'' \<and> l = ''data_quality_cmd'') \<or>
     (s = ''test'' \<and> l = ''test_cmd'') \<or> (s = ''lint'' \<and> l = ''lint_cmd'') \<or>
     (s = ''bench'' \<and> l = ''perf_cmd'') \<or> (s = ''timeout'' \<and> l = ''timeout_sec'') \<or>
     (s = ''ema'' \<and> l = ''ema_alpha'') \<or> (s = ''notes'' \<and> l = ''z_notes'')"
    by (simp add: start_keys_def)
  then show ?thesis
    by (elim disjE conjE) (simp_all add: start_scalars_def start_default_def)
qed

lemma invert_nested_other: "s \<noteq> k \<Longrightarrow> map_of (invert_nested tbl k t) s = None"
  by (auto simp: invert_nested_def split: option.splits pyval.splits)

lemma start_keys_not_nested:
  assumes "(s, l) \<in> set start_keys"
  shows "s \<noteq> ''weights''" and "s \<noteq> ''halt''"
proof -
  have "''weights'' \<notin> fst ` set start_keys" "''halt'' \<notin> fst ` set start_keys"
    by (simp_all add: start_keys_def)
  then show "s \<noteq> ''weights''" and "s \<noteq> ''halt''"
    using assms by force+
qed

lemma top_level_roundtrip:
  assumes k: "(s, l) \<in> set start_keys" and has: "dict_has args s"
  defines "t \<equiv> filter (\<lambda>(k, v). v \<noteq> PNone) (start_unfiltered args)"
  shows "dict_get (inverse_start t) s PNone = dict_get args s PNone"
proof -
  have inv: "map_of (invert_keys start_keys t) s = map_of t l"
    by (rule invert_keys_table_lookup [OF start_keys_distinct k])
  have n: "map_of (invert_nested weights_keys ''weights'' t @ invert_nested halt_keys ''halt'' t) s = None"
    using start_keys_not_nested [OF k] by (simp add: invert_nested_other)
  have "map_of (inverse_start t) s = map_of (invert_keys start_keys t) s"
    unfolding inverse_start_def by (rule map_of_append_left [OF n])
  then have "dict_get (inverse_start t) s PNone = dict_get t l PNone"
    by (simp add: dict_get_def inv)
  also have "\<dots> = dict_get (start_unfiltered args) l PNone"
    unfolding t_def by (rule filter_not_none_get [OF start_unfiltered_distinct])
  also have "\<dots> = dict_get args s PNone"
  proof -
    have "map_of (start_scalars args) l = Some (dict_get args s (start_default s))"
      by (rule start_scalars_lookup [OF k])
    then have "map_of (start_unfiltered args) l = Some (dict_get args s (start_default s))"
      unfolding start_unfiltered_def by (rule map_of_append_Some)
    then have "dict_get (start_unfiltered args) l PNone = dict_get args s (start_default s)"
      by (simp add: dict_get_def [of "start_unfiltered args"])
    then show ?thesis
      using dict_get_present [OF has, of "start_default s"] by (rule trans)
  qed
  finally show ?thesis .
qed

lemma start_same_on:
  "same_on start_keys
     (inverse_start (filter (\<lambda>(k, v). v \<noteq> PNone) (start_unfiltered args))) args"
  unfolding same_on_def
proof (intro ballI impI)
  fix s assume "s \<in> set (map fst start_keys)" and has: "dict_has args s"
  then obtain l where "(s, l) \<in> set start_keys" by auto
  then show "dict_get (inverse_start (filter (\<lambda>(k, v). v \<noteq> PNone) (start_unfiltered args))) s PNone
             = dict_get args s PNone"
    using has by (rule top_level_roundtrip)
qed

lemma start_scalars_no_nested:
  "map_of (start_scalars args) ''weights'' = None" "map_of (start_scalars args) ''halt'' = None"
  by (simp_all add: start_scalars_def)

lemma start_unfiltered_weights:
  assumes "map_of args ''weights'' = Some (PDict w)"
  shows "map_of (start_unfiltered args) ''weights'' = Some (PDict (translated_weights w))"
proof -
  have "map_of (start_nested ''weights'' translated_weights args) ''weights''
        = Some (PDict (translated_weights w))"
    using assms by (simp add: start_nested_def)
  then have "map_of (start_nested ''weights'' translated_weights args @
                     start_nested ''halt'' translated_halt args) ''weights''
             = Some (PDict (translated_weights w))"
    by (rule map_of_append_Some)
  then show ?thesis
    unfolding start_unfiltered_def
    by (simp only: map_of_append_right [OF start_scalars_no_nested(1)])
qed

lemma start_nested_other: "s \<noteq> k \<Longrightarrow> map_of (start_nested k f args) s = None"
  by (auto simp: start_nested_def split: option.splits pyval.splits)

lemma start_unfiltered_halt:
  assumes "map_of args ''halt'' = Some (PDict h)"
  shows "map_of (start_unfiltered args) ''halt'' = Some (PDict (translated_halt h))"
proof -
  have a: "map_of (start_nested ''halt'' translated_halt args) ''halt''
        = Some (PDict (translated_halt h))"
    using assms by (simp add: start_nested_def)
  have b: "map_of (start_nested ''weights'' translated_weights args) ''halt'' = None"
    by (rule start_nested_other) simp
  show ?thesis
    unfolding start_unfiltered_def
    by (simp only: map_of_append_right [OF start_scalars_no_nested(2)]
          map_of_append_right [OF b] a)
qed

lemma filtered_nested_lookup:
  assumes "map_of (start_unfiltered args) k = Some (PDict d)"
  shows "map_of (filter (\<lambda>(k, v). v \<noteq> PNone) (start_unfiltered args)) k = Some (PDict d)"
  by (rule filter_not_none_lookup [OF start_unfiltered_distinct assms]) simp

lemma inverse_start_weights:
  assumes "map_of t ''weights'' = Some (PDict d)"
  shows "map_of (inverse_start t) ''weights'' = Some (PDict (invert_keys weights_keys d))"
proof -
  have a: "map_of (invert_keys start_keys t) ''weights'' = None"
    by (rule invert_keys_table_absent) (simp add: start_keys_def)
  have b: "map_of (invert_nested weights_keys ''weights'' t) ''weights''
           = Some (PDict (invert_keys weights_keys d))"
    using assms by (simp add: invert_nested_def)
  show ?thesis
    unfolding inverse_start_def
    by (simp only: map_of_append_right [OF a] map_of_append_Some [OF b])
qed

lemma inverse_start_halt:
  assumes "map_of t ''halt'' = Some (PDict d)"
  shows "map_of (inverse_start t) ''halt'' = Some (PDict (invert_keys halt_keys d))"
proof -
  have a: "map_of (invert_keys start_keys t) ''halt'' = None"
    by (rule invert_keys_table_absent) (simp add: start_keys_def)
  have b: "map_of (invert_nested weights_keys ''weights'' t) ''halt'' = None"
    by (rule invert_nested_other) simp
  have c: "map_of (invert_nested halt_keys ''halt'' t) ''halt''
           = Some (PDict (invert_keys halt_keys d))"
    using assms by (simp add: invert_nested_def)
  show ?thesis
    unfolding inverse_start_def
    by (simp only: map_of_append_right [OF a] map_of_append_right [OF b] c)
qed

lemma weights_same_on: "same_on weights_keys (invert_keys weights_keys (translated_weights w)) w"
proof -
  have e: "invert_keys weights_keys (translated_weights w) =
        [(''dataQual'', dict_get w ''dataQual'' (PFloat 0.3)),
         (''test'', dict_get w ''test'' (PFloat 0.4)),
         (''lint'', dict_get w ''lint'' (PFloat 0.1)),
         (''perf'', dict_get w ''perf'' (PFloat 0.2))]"
    by (simp add: weights_keys_def translated_weights_def)
  show ?thesis
    unfolding same_on_def e
    using dict_get_present [of w "''dataQual''" "PFloat 0.3"]
          dict_get_present [of w "''test''" "PFloat 0.4"]
          dict_get_present [of w "''lint''" "PFloat 0.1"]
          dict_get_present [of w "''perf''" "PFloat 0.2"]
    by (simp add: weights_keys_def dict_get_def [of "_ # _"])
qed

lemma halt_same_on: "same_on halt_keys (invert_keys halt_keys (translated_halt h)) h"
proof -
  have e: "invert_keys halt_keys (translated_halt h) =
        [(''max'', dict_get h ''max'' (PInt 12)),
         (''threshold'', dict_get h ''threshold'' (PFloat 0.95)),
         (''patience'', dict_get h ''patience'' (PInt 3)),
         (''min'', dict_get h ''min'' (PInt 1))]"
    by (simp add: halt_keys_def translated_halt_def)
  show ?thesis
    unfolding same_on_def e
    using dict_get_present [of h "''max''" "PInt 12"]
          dict_get_present [of h "''threshold''" "PFloat 0.95"]
          dict_get_present [of h "''patience''" "PInt 3"]
          dict_get_present [of h "''min''" "PInt 1"]
    by (simp add: halt_keys_def dict_get_def [of "_ # _"])
qed

lemma submit_same_on: "same_on submit_keys (inverse_submit (translate_submit args)) args"
proof -
  have e: "inverse_submit (translate_submit args) =
        [(''sid'', dict_get args ''sid'' PNone), (''reason'', dict_get args ''reason'' PNone)]"
    by (simp add: inverse_submit_def translate_submit_def submit_keys_def)
  show ?thesis
    unfolding same_on_def e
    by (simp add: submit_keys_def dict_get_def [of "_ # _"])
qed

text \<open>
  Claim C9. For an argument object of \<^verbatim>\<open>start\<close> whose \<^verbatim>\<open>weights\<close> and
  \<^verbatim>\<open>halt\<close>, when given, are objects, translation succeeds, and translating then
  applying the inverse key mapping gives back, for every known short key the object
  has (repo, dataQual, test, lint, bench, timeout, ema, notes, and the keys inside
  weights and halt), the value the object had. The same holds for \<^verbatim>\<open>submit\<close> and
  its keys sid and reason.
\<close>

theorem key_translation_roundtrip:
  assumes "object_or_absent args ''weights''" and "object_or_absent args ''halt''"
  shows "(\<exists>t. translate_params ''trm.start'' args = Inr t
            \<and> same_on start_keys (inverse_start t) args
            \<and> nested_same_on weights_keys ''weights'' (inverse_start t) args
            \<and> nested_same_on halt_keys ''halt'' (inverse_start t) args)
         \<and> (\<exists>t. translate_params ''trm.submit'' sargs = Inr t
            \<and> same_on submit_keys (inverse_submit t) sargs)"
proof (intro conjI exI)
  let ?t = "filter (\<lambda>(k, v). v \<noteq> PNone) (start_unfiltered args)"
  show "translate_params ''trm.start'' args = Inr ?t"
    using translate_start_unfiltered [OF assms] by (simp add: translate_params_def)
  show "same_on start_keys (inverse_start ?t) args"
    by (rule start_same_on)
  show "nested_same_on weights_keys ''weights'' (inverse_start ?t) args"
    unfolding nested_same_on_def
  proof (intro allI impI)
    fix w assume "map_of args ''weights'' = Some (PDict w)"
    then have "map_of ?t ''weights'' = Some (PDict (translated_weights w))"
      by (intro filtered_nested_lookup start_unfiltered_weights)
    then have "map_of (inverse_start ?t) ''weights''
               = Some (PDict (invert_keys weights_keys (translated_weights w)))"
      by (rule inverse_start_weights)
    then show "\<exists>w'. map_of (inverse_start ?t) ''weights'' = Some (PDict w')
                    \<and> same_on weights_keys w' w"
      using weights_same_on by blast
  qed
  show "nested_same_on halt_keys ''halt'' (inverse_start ?t) args"
    unfolding nested_same_on_def
  proof (intro allI impI)
    fix h assume "map_of args ''halt'' = Some (PDict h)"
    then have "map_of ?t ''halt'' = Some (PDict (translated_halt h))"
      by (intro filtered_nested_lookup start_unfiltered_halt)
    then have "map_of (inverse_start ?t) ''halt''
               = Some (PDict (invert_keys halt_keys (translated_halt h)))"
      by (rule inverse_start_halt)
    then show "\<exists>h'. map_of (inverse_start ?t) ''halt'' = Some (PDict h')
                    \<and> same_on halt_keys h' h"
      using halt_same_on by blast
  qed
  show "translate_params ''trm.submit'' sargs = Inr (translate_submit sargs)"
    by (simp add: translate_params_def)
  show "same_on submit_keys (inverse_submit (translate_submit sargs)) sargs"
    by (rule submit_same_on)
qed

text \<open>
  Claim C10. When the \<^verbatim>\<open>halt\<close> object of a start request omits \<^verbatim>\<open>max\<close>,
  \<^verbatim>\<open>threshold\<close>, \<^verbatim>\<open>patience\<close> or \<^verbatim>\<open>min\<close>, translation does not reject the
  request: it returns a dictionary whose \<^verbatim>\<open>halt\<close> holds the default 12, 0.95, 3
  or 1 for the omitted key, and the given value for a key that is present.
\<close>

theorem halt_defaults_filled:
  assumes "map_of args ''halt'' = Some (PDict h)" and "object_or_absent args ''weights''"
  shows "\<exists>t th. translate_params ''trm.start'' args = Inr t
           \<and> map_of t ''halt'' = Some (PDict th)
           \<and> map_of th ''max_steps'' = Some (dict_get h ''max'' (PInt 12))
           \<and> map_of th ''pass_threshold'' = Some (dict_get h ''threshold'' (PFloat 0.95))
           \<and> map_of th ''patience_no_improve'' = Some (dict_get h ''patience'' (PInt 3))
           \<and> map_of th ''min_steps'' = Some (dict_get h ''min'' (PInt 1))
           \<and> (\<not> dict_has h ''max'' \<longrightarrow> map_of th ''max_steps'' = Some (PInt 12))
           \<and> (\<not> dict_has h ''threshold'' \<longrightarrow> map_of th ''pass_threshold'' = Some (PFloat 0.95))
           \<and> (\<not> dict_has h ''patience'' \<longrightarrow> map_of th ''patience_no_improve'' = Some (PInt 3))
           \<and> (\<not> dict_has h ''min'' \<longrightarrow> map_of th ''min_steps'' = Some (PInt 1))"
proof -
  let ?t = "filter (\<lambda>(k, v). v \<noteq> PNone) (start_unfiltered args)"
  have obj: "object_or_absent args ''halt''"
    using assms(1) by (simp add: object_or_absent_def)
  have t: "translate_params ''trm.start'' args = Inr ?t"
    using translate_start_unfiltered [OF assms(2) obj] by (simp add: translate_params_def)
  have th: "map_of ?t ''halt'' = Some (PDict (translated_halt h))"
    using assms(1) by (intro filtered_nested_lookup start_unfiltered_halt)
  have vals:
    "map_of (translated_halt h) ''max_steps'' = Some (dict_get h ''max'' (PInt 12))"
    "map_of (translated_halt h) ''pass_threshold'' = Some (dict_get h ''threshold'' (PFloat 0.95))"
    "map_of (translated_halt h) ''patience_no_improve'' = Some (dict_get h ''patience'' (PInt 3))"
    "map_of (translated_halt h) ''min_steps'' = Some (dict_get h ''min'' (PInt 1))"
    by (simp_all add: translated_halt_def)
  have dflt: "\<not> dict_has h k \<Longrightarrow> dict_get h k d = d" for k d
    by (simp add: dict_has_def dict_get_def)
  show ?thesis
    using t th vals dflt by (intro exI [of _ ?t] exI [of _ "translated_halt h"]) simp
qed

theorem key_translation_roundtrip_witness:
  "object_or_absent example_start_args ''weights''
   \<and> object_or_absent example_start_args ''halt''
   \<and> (\<exists>t. translate_params ''trm.start'' example_start_args = Inr t
          \<and> dict_get (inverse_start t) ''repo'' PNone = PStr ''.''
          \<and> dict_get (inverse_start t) ''lint'' PNone = PStr ''flake8 src/''
          \<and> (\<exists>h'. map_of (inverse_start t) ''halt'' = Some (PDict h')
                \<and> dict_get h' ''max'' PNone = PInt 5))
   \<and> (\<exists>t. translate_params ''trm.submit'' example_submit_args = Inr t
          \<and> dict_get (inverse_submit t) ''sid'' PNone = PStr ''s1'')"
proof -
  have h1: "object_or_absent example_start_args ''weights''"
    by (simp add: object_or_absent_def example_start_args_def)
  have h2: "object_or_absent example_start_args ''halt''"
    by (simp add: object_or_absent_def example_start_args_def)
  from key_translation_roundtrip [OF h1 h2, of example_submit_args]
  obtain t u where t: "translate_params ''trm.start'' example_start_args = Inr t"
      and top: "same_on start_keys (inverse_start t) example_start_args"
      and nested: "nested_same_on halt_keys ''halt'' (inverse_start t) example_start_args"
      and u: "translate_params ''trm.submit'' example_submit_args = Inr u"
      and sub: "same_on submit_keys (inverse_submit u) example_submit_args"
    by blast
  have a: "dict_get (inverse_start t) ''repo'' PNone = PStr ''.''"
          "dict_get (inverse_start t) ''lint'' PNone = PStr ''flake8 src/''"
    using top
    by (simp_all add: same_on_def start_keys_def dict_has_def example_start_args_def
          dict_get_def [of "_ # _"])
  have b: "\<exists>h'. map_of (inverse_start t) ''halt'' = Some (PDict h')
                \<and> dict_get h' ''max'' PNone = PInt 5"
    using nested
    by (auto simp: nested_same_on_def same_on_def halt_keys_def dict_has_def
          example_start_args_def dict_get_def [of "_ # _"])
  have c: "dict_get (inverse_submit u) ''sid'' PNone = PStr ''s1''"
    using sub
    by (simp add: same_on_def submit_keys_def dict_has_def example_submit_args_def
          dict_get_def [of "_ # _"])
  show ?thesis using h1 h2 t a b u c by blast
qed

theorem halt_defaults_filled_witness:
  "map_of example_start_args ''halt'' = Some (PDict [(''max'', PInt 5), (''threshold'', PFloat 0.9)])
   \<and> object_or_absent example_start_args ''weights''
   \<and> (\<exists>t th. translate_params ''trm.start'' example_start_args = Inr t
          \<and> map_of t ''halt'' = Some (PDict th)
          \<and> map_of th ''max_steps'' = Some (PInt 5)
          \<and> map_of th ''pass_threshold'' = Some (PFloat 0.9)
          \<and> map_of th ''patience_no_improve'' = Some (PInt 3)
          \<and> map_of th ''min_steps'' = Some (PInt 1))"
proof -
  have h1: "map_of example_start_args ''halt''
            = Some (PDict [(''max'', PInt 5), (''threshold'', PFloat 0.9)])"
    by (simp add: example_start_args_def)
  have h2: "object_or_absent example_start_args ''weights''"
    by (simp add: object_or_absent_def example_start_args_def)
  show ?thesis
    using h1 h2 halt_defaults_filled [OF h1 h2]
    by (auto simp: dict_has_def dict_get_def)
qed

section \<open>Properties of the availability probe\<close>

lemma split_from_word:
  "cur \<noteq> [] \<Longrightarrow>
   split_from cur s =
     (cur @ takeWhile (\<lambda>c. \<not> is_space c) s) # split_from [] (dropWhile (\<lambda>c. \<not> is_space c) s)"
  by (induction s arbitrary: cur) auto

lemma split_from_empty:
  "split_from [] s =
     (case dropWhile is_space s of
        [] \<Rightarrow> []
      | c # cs \<Rightarrow> takeWhile (\<lambda>c. \<not> is_space c) (c # cs) #
                  split_from [] (dropWhile (\<lambda>c. \<not> is_space c) (c # cs)))"
proof (induction s)
  case Nil
  show ?case by simp
next
  case (Cons c cs)
  show ?case
  proof (cases "is_space c")
    case True
    then show ?thesis using Cons.IH by simp
  next
    case False
    then show ?thesis using split_from_word [of "[c]" cs] by simp
  qed
qed

lemma first_token_empty: "first_token cmd = [] \<longleftrightarrow> dropWhile is_space cmd = []"
proof (cases "dropWhile is_space cmd")
  case Nil
  then show ?thesis by (simp add: first_token_def del: dropWhile_eq_Nil_conv)
next
  case (Cons c cs)
  then have "\<not> is_space c" using hd_dropWhile [of is_space cmd] by auto
  then show ?thesis using Cons by (simp add: first_token_def)
qed

lemma first_word_token:
  "first_word cmd = (if first_token cmd = [] then Inl IndexError else Inr (first_token cmd))"
proof (cases "dropWhile is_space cmd")
  case Nil
  then show ?thesis
    using first_token_empty [of cmd]
    by (simp add: first_word_def py_split_def split_from_empty del: dropWhile_eq_Nil_conv)
next
  case (Cons c cs)
  then show ?thesis
    using first_token_empty [of cmd]
    by (simp add: first_word_def py_split_def split_from_empty [of cmd] first_token_def)
qed

lemma first_token_no_space:
  assumes "\<forall>c\<in>set cmd. \<not> is_space c"
  shows "first_token cmd = cmd"
proof -
  have "dropWhile is_space cmd = cmd"
    using assms by (cases cmd) auto
  moreover have "takeWhile (\<lambda>c. \<not> is_space c) cmd = cmd"
    using assms by (simp add: takeWhile_eq_all_conv)
  ultimately show ?thesis by (simp add: first_token_def)
qed

lemma space_is_space: "is_space CHR '' ''"
  by (simp add: is_space_def)

text \<open>
  Claim C8 (as amended). For a command string that contains a space character or no
  whitespace at all, and that has a token, \<^verbatim>\<open>check_command_available\<close> is true
  exactly when \<^verbatim>\<open>which\<close> exits with 0 on the first whitespace-delimited token of
  the string (and false when the probe raises, as on a timeout).
\<close>

theorem check_available_first_token:
  assumes "space_separated cmd" and "first_token cmd \<noteq> []"
  shows "check_command_available which cmd \<longleftrightarrow> which (first_token cmd) = Some 0"
proof (cases "CHR '' '' \<in> set cmd")
  case True
  then show ?thesis
    using assms(2)
    by (simp add: check_command_available_def check_command_body_def first_word_token
          bind_err_Inr split: option.splits)
next
  case False
  then have "\<forall>c\<in>set cmd. \<not> is_space c"
    using assms(1) by (simp add: space_separated_def)
  then have "first_token cmd = cmd" by (rule first_token_no_space)
  then show ?thesis
    using False
    by (simp add: check_command_available_def check_command_body_def bind_err_Inr
          split: option.splits)
qed

theorem check_available_first_token_witness:
  "space_separated ''pytest tests/ --json''
   \<and> first_token ''pytest tests/ --json'' = ''pytest''
   \<and> check_command_available pytest_only ''pytest tests/ --json''
   \<and> \<not> check_command_available pytest_only ''flake8 src/''"
proof -
  have a: "space_separated ''pytest tests/ --json''" "space_separated ''flake8 src/''"
    by (simp_all add: space_separated_def)
  have b: "first_token ''pytest tests/ --json'' = ''pytest''"
          "first_token ''flake8 src/'' = ''flake8''"
    by (simp_all add: first_token_def is_space_def)
  show ?thesis
    using a b check_available_first_token [of "''pytest tests/ --json''" pytest_only]
      check_available_first_token [of "''flake8 src/''" pytest_only]
    by (simp add: pytest_only_def)
qed

text \<open>
  Claim C8 fails as stated on a command whose words are separated by a tab: the string
  has no space character, so the whole string is probed, not its first token.
\<close>

theorem check_available_tab_separated:
  "first_token tab_separated_cmd = ''pytest''
   \<and> pytest_only (first_token tab_separated_cmd) = Some 0
   \<and> \<not> check_command_available pytest_only tab_separated_cmd"
  by (simp add: tab_separated_cmd_def first_token_def is_space_def pytest_only_def
        check_command_available_def check_command_body_def bind_err_Inr)

section \<open>Properties of the file reader\<close>













section \<open>Properties of the output parsers\<close>

text \<open>
  Claim C3. On \<^verbatim>\<open>"123.45 ms"\<close> the performance parser returns 0.12345 and on
  \<^verbatim>\<open>"2 min"\<close> it returns 120, as documented. On \<^verbatim>\<open>"1.5s"\<close> it returns absent,
  not 1.5: the seconds pattern asks for a backslash and the letter b after the unit.
\<close>

theorem perf_metric_documented_forms:
  "parse_performance_metric ''123.45 ms'' = Inr (Some 0.12345)
   \<and> parse_performance_metric ''1.5s'' = Inr None
   \<and> parse_performance_metric ''2 min'' = Inr (Some 120)"
  by code_simp

lemma perf_metric_seconds_with_backslash_b:
  "parse_performance_metric (''1.5s'' @ [CHR 0x5C, CHR ''b'']) = Inr (Some 1.5)"
  by code_simp

text \<open>
  Claim C4. The test parser raises on an output that is a JSON document but not an
  object: the membership test \<^verbatim>\<open>"tests" in data\<close> raises \<^verbatim>\<open>TypeError\<close> on a number,
  \<^verbatim>\<open>null\<close> or a boolean, and only \<^verbatim>\<open>JSONDecodeError\<close> and \<^verbatim>\<open>KeyError\<close> are caught.
\<close>

theorem pytest_parser_raises_on_json_scalar:
  "parse_test_output ''5'' ''pytest'' = Inl TypeError
   \<and> parse_test_output ''null'' ''pytest'' = Inl TypeError"
  by code_simp

text \<open>
  On an output that is not a JSON document the test parser does not raise, and it
  returns absent when the output has no count and no "no tests" notice.
\<close>

lemma pytest_parser_total_on_text:
  assumes "json_loads output = Inl JSONDecodeError"
  shows "parse_test_output output ''pytest'' = Inr (pytest_text output)"
  using assms by (simp add: parse_test_output_def parse_pytest_output_def bind_err_Inl)

lemma pytest_parser_documented_summary:
  "parse_test_output ''5 passed, 2 failed'' ''pytest''
     = Inr (Some \<lparr>passed = 5, failed = 2, total = 7, raw = Some ''5 passed, 2 failed''\<rparr>)"
  by code_simp

section \<open>Properties of the evaluation pipeline\<close>

lemma score_and_update_facts:
  assumes "score_and_update ar s dq li ts pf fb = (r, s')"
  shows "history s' = history s @ [r]"
    and "ema_alpha s' = ema_alpha s"
    and "best_perf s' = best_perf s"
    and "SessionState.step s' = SessionState.step s + 1"
    and "SessionState.ema_score s' = EvalResult.ema_score r"
    and "EvalResult.ema_score r =
           update_ema_score ar (score r)
             (if SessionState.step s > 0 then SessionState.ema_score s else score r)
             (ema_alpha s)"
    and "EvalResult.perf r = pf"
  using assms by (auto simp: score_and_update_def Let_def)

lemma record_perf_best:
  "snd (record_perf ar v best) = (case best of None \<Rightarrow> None | Some b \<Rightarrow> Some (min b v))"
  by (auto simp: record_perf_def min_def split: option.splits)

lemma perf_probe_best:
  assumes "perf_probe ar run c best = Inr (pf, fb, bp)"
  shows "bp = (case best of
                 None \<Rightarrow> None
               | Some b \<Rightarrow> (case pf of None \<Rightarrow> Some b | Some p \<Rightarrow> Some (min b (value p))))"
proof (cases "configured (perf_cmd c)")
  case None
  then show ?thesis using assms by (auto simp: perf_probe_def split: option.splits)
next
  case (Some cmd)
  show ?thesis
  proof (cases "parse_performance_metric (combined_output (run PerfProbe cmd))")
    case (Inl e)
    then show ?thesis using assms Some by (simp add: perf_probe_def bind_err_Inl)
  next
    case (Inr pv)
    show ?thesis
    proof (cases pv)
      case None
      then show ?thesis
        using assms Some Inr by (auto simp: perf_probe_def bind_err_Inr split: option.splits)
    next
      case (Some v)
      obtain line b' where rp: "record_perf ar v best = (line, b')"
        by (cases "record_perf ar v best")
      then have "b' = (case best of None \<Rightarrow> None | Some b \<Rightarrow> Some (min b v))"
        using record_perf_best [of ar v best] by simp
      then show ?thesis
        using assms \<open>configured (perf_cmd c) = Some cmd\<close> Inr Some rp
        by (auto simp: perf_probe_def bind_err_Inr split: option.splits)
    qed
  qed
qed

lemma run_evaluation_shape:
  assumes "run_evaluation ar run s = Inr (r, s')"
  shows "\<exists>dq li ts pf pfb fb bp.
           perf_probe ar run (cfg s) (best_perf s) = Inr (pf, pfb, bp)
           \<and> score_and_update ar (s\<lparr>best_perf := bp\<rparr>) dq li ts pf fb = (r, s')"
proof -
  from assms obtain ts where "test_probe run (cfg s) = Inr ts"
    by (cases "test_probe run (cfg s)") (simp_all add: run_evaluation_def bind_err_def)
  moreover from assms this obtain pf where pf: "perf_probe ar run (cfg s) (best_perf s) = Inr pf"
    by (cases "perf_probe ar run (cfg s) (best_perf s)")
       (simp_all add: run_evaluation_def bind_err_def Let_def)
  ultimately have "score_and_update ar (s\<lparr>best_perf := snd (snd pf)\<rparr>)
                     (fst (data_quality_probe run (cfg s))) (fst (lint_probe run (cfg s)))
                     (fst ts) (fst pf)
                     (snd (data_quality_probe run (cfg s)) @ snd ts @
                      snd (lint_probe run (cfg s)) @ fst (snd pf)) = (r, s')"
    using assms by (simp add: run_evaluation_def bind_err_def Let_def)
  moreover have "perf_probe ar run (cfg s) (best_perf s) = Inr (fst pf, fst (snd pf), snd (snd pf))"
    using pf by simp
  ultimately show ?thesis by blast
qed

lemma run_evaluation_facts:
  assumes "run_evaluation ar run s = Inr (r, s')"
  shows "history s' = history s @ [r]"
    and "ema_alpha s' = ema_alpha s"
    and "SessionState.step s' = SessionState.step s + 1"
    and "SessionState.ema_score s' = EvalResult.ema_score r"
    and "EvalResult.ema_score r =
           update_ema_score ar (score r)
             (if SessionState.step s > 0 then SessionState.ema_score s else score r)
             (ema_alpha s)"
    and "best_perf s' =
           (case best_perf s of
              None \<Rightarrow> None
            | Some b \<Rightarrow> (case EvalResult.perf r of
                           None \<Rightarrow> Some b
                         | Some p \<Rightarrow> Some (min b (value p))))"
proof -
  from run_evaluation_shape [OF assms] obtain dq li ts pf pfb fb bp
    where p: "perf_probe ar run (cfg s) (best_perf s) = Inr (pf, pfb, bp)"
      and u: "score_and_update ar (s\<lparr>best_perf := bp\<rparr>) dq li ts pf fb = (r, s')"
    by blast
  note f = score_and_update_facts [OF u]
  show "history s' = history s @ [r]" using f(1) by simp
  show "ema_alpha s' = ema_alpha s" using f(2) by simp
  show "SessionState.step s' = SessionState.step s + 1" using f(4) by simp
  show "SessionState.ema_score s' = EvalResult.ema_score r" using f(5) by simp
  show "EvalResult.ema_score r =
           update_ema_score ar (score r)
             (if SessionState.step s > 0 then SessionState.ema_score s else score r)
             (ema_alpha s)" using f(6) by simp
  show "best_perf s' =
           (case best_perf s of
              None \<Rightarrow> None
            | Some b \<Rightarrow> (case EvalResult.perf r of
                           None \<Rightarrow> Some b
                         | Some p \<Rightarrow> Some (min b (value p))))"
    using f(3) perf_probe_best [OF p] unfolding f(7) by simp
qed

lemma ema_recurrence_snoc:
  assumes "ema_recurrence ar \<alpha> h"
      and "h = [] \<Longrightarrow> EvalResult.ema_score r = update_ema_score ar (score r) (score r) \<alpha>"
      and "h \<noteq> [] \<Longrightarrow>
           EvalResult.ema_score r =
             update_ema_score ar (score r) (EvalResult.ema_score (last h)) \<alpha>"
  shows "ema_recurrence ar \<alpha> (h @ [r])"
  unfolding ema_recurrence_def
proof (intro conjI impI allI)
  show "EvalResult.ema_score ((h @ [r]) ! 0) =
          rnd ar (rnd ar (\<alpha> * score ((h @ [r]) ! 0)) +
                  rnd ar (rnd ar (1 - \<alpha>) * score ((h @ [r]) ! 0)))"
  proof (cases "h = []")
    case True
    then show ?thesis using assms(2) by (simp add: update_ema_score_def)
  next
    case False
    then have "EvalResult.ema_score (h ! 0) =
                 rnd ar (rnd ar (\<alpha> * score (h ! 0)) + rnd ar (rnd ar (1 - \<alpha>) * score (h ! 0)))"
      using assms(1) unfolding ema_recurrence_def by blast
    moreover have "(h @ [r]) ! 0 = h ! 0" using False by (simp add: nth_append)
    ultimately show ?thesis by simp
  qed
next
  fix i assume i: "1 \<le> i \<and> i < length (h @ [r])"
  show "EvalResult.ema_score ((h @ [r]) ! i) =
          rnd ar (rnd ar (\<alpha> * score ((h @ [r]) ! i)) +
                  rnd ar (rnd ar (1 - \<alpha>) * EvalResult.ema_score ((h @ [r]) ! (i - 1))))"
  proof (cases "i < length h")
    case True
    then have "EvalResult.ema_score (h ! i) =
                 rnd ar (rnd ar (\<alpha> * score (h ! i)) +
                         rnd ar (rnd ar (1 - \<alpha>) * EvalResult.ema_score (h ! (i - 1))))"
      using assms(1) i unfolding ema_recurrence_def by blast
    moreover have "(h @ [r]) ! i = h ! i" "(h @ [r]) ! (i - 1) = h ! (i - 1)"
      using True by (simp_all add: nth_append)
    ultimately show ?thesis by simp
  next
    case False
    then have e: "i = length h" and ne: "h \<noteq> []" using i by auto
    have "(h @ [r]) ! (i - 1) = last h"
      using e ne by (simp add: nth_append last_conv_nth)
    moreover have "(h @ [r]) ! i = r" using e by simp
    ultimately show ?thesis using assms(3) [OF ne] by (simp add: update_ema_score_def)
  qed
qed

lemma ema_recurrence_exact:
  assumes "rnd ar = (\<lambda>x. x)" and "ema_recurrence ar \<alpha> h"
  shows "ema_law \<alpha> h"
  unfolding ema_law_def
proof (intro conjI impI allI)
  assume "h \<noteq> []"
  then have "EvalResult.ema_score (h ! 0) = \<alpha> * score (h ! 0) + (1 - \<alpha>) * score (h ! 0)"
    using assms unfolding ema_recurrence_def by simp
  then show "EvalResult.ema_score (h ! 0) = score (h ! 0)" by (simp add: algebra_simps)
next
  fix i assume "1 \<le> i \<and> i < length h"
  then show "EvalResult.ema_score (h ! i) =
          \<alpha> * score (h ! i) + (1 - \<alpha>) * EvalResult.ema_score (h ! (i - 1))"
    using assms unfolding ema_recurrence_def by simp
qed

lemma session_inv_step:
  assumes "session_inv ar s" and "run_evaluation ar run s = Inr (r, s')"
  shows "session_inv ar s'"
proof -
  note f = run_evaluation_facts [OF assms(2)]
  from assms(1) have st: "SessionState.step s = int (length (history s))"
      and last: "history s \<noteq> [] \<Longrightarrow> SessionState.ema_score s = EvalResult.ema_score (last (history s))"
      and law: "ema_recurrence ar (ema_alpha s) (history s)"
    by (simp_all add: session_inv_def)
  have first: "EvalResult.ema_score r = update_ema_score ar (score r) (score r) (ema_alpha s)"
    if "history s = []"
  proof -
    have "SessionState.step s = 0" using st that by simp
    then show ?thesis using f(5) by simp
  qed
  have later: "EvalResult.ema_score r =
                 update_ema_score ar (score r) (EvalResult.ema_score (last (history s))) (ema_alpha s)"
    if "history s \<noteq> []"
  proof -
    have "SessionState.step s > 0" using st that by simp
    then show ?thesis using f(5) last [OF that] by simp
  qed
  have "ema_recurrence ar (ema_alpha s) (history s @ [r])"
    using law first later by (rule ema_recurrence_snoc)
  then show ?thesis
    using f(1-4) st by (simp add: session_inv_def)
qed

lemma run_evaluations_inv:
  assumes "session_inv ar s" and "run_evaluations ar runs s = Inr s'"
  shows "session_inv ar s' \<and> ema_alpha s' = ema_alpha s
         \<and> length (history s') = length (history s) + length runs"
  using assms
proof (induction runs arbitrary: s)
  case Nil
  then show ?case by simp
next
  case (Cons run runs)
  from Cons.prems(2) obtain r s1 where one: "run_evaluation ar run s = Inr (r, s1)"
      and rest: "run_evaluations ar runs s1 = Inr s'"
    by (cases "run_evaluation ar run s") (auto simp: bind_err_def)
  have i1: "session_inv ar s1" using Cons.prems(1) one by (rule session_inv_step)
  note f = run_evaluation_facts [OF one]
  from Cons.IH [OF i1 rest] show ?case using f(1,2) by simp
qed

lemma create_session_inv:
  "session_inv ar (fst (create_session sessions sid repo dqc tc lc pc tmo w h a z))"
  by (simp add: create_session_def session_inv_def ema_recurrence_def Let_def)

lemma run_evaluations_best_perf:
  assumes "best_perf s = None" and "run_evaluations ar runs s = Inr s'"
  shows "best_perf s' = None"
  using assms
proof (induction runs arbitrary: s)
  case Nil
  then show ?case by simp
next
  case (Cons run runs)
  from Cons.prems(2) obtain r s1 where one: "run_evaluation ar run s = Inr (r, s1)"
      and rest: "run_evaluations ar runs s1 = Inr s'"
    by (cases "run_evaluation ar run s") (auto simp: bind_err_def)
  have "best_perf s1 = None"
    using run_evaluation_facts(6) [OF one] Cons.prems(1) by simp
  then show ?case using rest by (rule Cons.IH)
qed

lemma best_perf_non_increasing:
  assumes "run_evaluation ar run s = Inr (r, s')" and "best_perf s = Some b"
  shows "\<exists>b'. best_perf s' = Some b' \<and> b' \<le> b"
  using run_evaluation_facts(6) [OF assms(1)] assms(2)
  by (auto split: option.splits)

lemma run_evaluation_eq:
  assumes "data_quality_probe run (cfg s) = (dq, fb1)"
      and "test_probe run (cfg s) = Inr (ts, fb2)"
      and "lint_probe run (cfg s) = (li, fb3)"
      and "perf_probe ar run (cfg s) (best_perf s) = Inr (pf, fb4, bp)"
  shows "run_evaluation ar run s =
           Inr (score_and_update ar (s\<lparr>best_perf := bp\<rparr>) dq li ts pf (fb1 @ fb2 @ fb3 @ fb4))"
  using assms by (simp add: run_evaluation_def bind_err_def Let_def)

lemma score_and_update_result:
  "score (fst (score_and_update ar s dq li ts pf fb)) =
     calculate_weighted_score ar dq li ts pf (weights (cfg s)) (best_perf s)"
  "EvalResult.ema_score (fst (score_and_update ar s dq li ts pf fb)) =
     update_ema_score ar (calculate_weighted_score ar dq li ts pf (weights (cfg s)) (best_perf s))
       (if SessionState.step s > 0 then SessionState.ema_score s
        else calculate_weighted_score ar dq li ts pf (weights (cfg s)) (best_perf s))
       (ema_alpha s)"
  "EvalResult.perf (fst (score_and_update ar s dq li ts pf fb)) = pf"
  "history (snd (score_and_update ar s dq li ts pf fb)) =
     history s @ [fst (score_and_update ar s dq li ts pf fb)]"
  "best_perf (snd (score_and_update ar s dq li ts pf fb)) = best_perf s"
  by (simp_all add: score_and_update_def Let_def)

lemma lint_session_two_runs:
  "(case run_evaluations exact [exits 0 [] [], exits 1 [] ''E501 line too long''] lint_session of
      Inl e \<Rightarrow> None
    | Inr s \<Rightarrow> Some (map score (history s), map EvalResult.ema_score (history s)))
   = Some ([1, 0], [1, 1 / 10])"
  by code_simp

lemma double_alpha: "rnd ieee 0.9 = 8106479329266893 / 2 ^ 53"
  by code_simp

lemma test_session_fields:
  "weights (cfg test_session) = stored ieee DEFAULT_WEIGHTS"
  "ema_alpha test_session = 8106479329266893 / 2 ^ 53"
  "SessionState.step test_session = 0"
  "history test_session = []"
  "best_perf test_session = None"
  "data_quality_cmd (cfg test_session) = None"
  "test_cmd (cfg test_session) = Some ''pytest''"
  "lint_cmd (cfg test_session) = None"
  "perf_cmd (cfg test_session) = None"
  by (simp_all add: test_session_def create_session_def double_alpha Let_def)

lemma bench_session_fields:
  "history bench_session = []"
  "best_perf bench_session = None"
  "data_quality_cmd (cfg bench_session) = None"
  "test_cmd (cfg bench_session) = None"
  "lint_cmd (cfg bench_session) = None"
  "perf_cmd (cfg bench_session) = Some ''python bench.py''"
  by (simp_all add: bench_session_def create_session_def Let_def)

lemma five_of_six_parsed:
  "parse_test_output (combined_output (exits 1 ''5 passed, 1 failed'' [] TestProbe ''pytest'')) ''pytest''
   = Inr (Some \<lparr>passed = 5, failed = 1, total = 6,
                  raw = Some (''5 passed, 1 failed'' @ backslash_n)\<rparr>)"
  by code_simp

lemma two_minutes_parsed:
  "parse_performance_metric (combined_output (exits 0 ''2 min'' [] PerfProbe ''python bench.py''))
   = Inr (Some 120)"
  by code_simp

lemma five_of_six_score:
  "calculate_weighted_score ieee None None
     (Some \<lparr>passed = 5, failed = 1, total = 6,
            raw = Some (''5 passed, 1 failed'' @ backslash_n)\<rparr>) None
     (stored ieee DEFAULT_WEIGHTS) None = 7505999378950827 / 2 ^ 53"
  by code_simp

lemma five_of_six_ema:
  "update_ema_score ieee (7505999378950827 / 2 ^ 53) (7505999378950827 / 2 ^ 53)
     (8106479329266893 / 2 ^ 53) = 3752999689475413 / 2 ^ 52"
  by code_simp

lemma test_session_one_run:
  "run_evaluation ieee (exits 1 ''5 passed, 1 failed'' []) test_session =
     Inr (score_and_update ieee test_session None None
            (Some \<lparr>passed = 5, failed = 1, total = 6,
                   raw = Some (''5 passed, 1 failed'' @ backslash_n)\<rparr>) None
            [TestsFailed 1 6])"
proof -
  have "run_evaluation ieee (exits 1 ''5 passed, 1 failed'' []) test_session =
     Inr (score_and_update ieee (test_session\<lparr>best_perf := None\<rparr>) None None
            (Some \<lparr>passed = 5, failed = 1, total = 6,
                   raw = Some (''5 passed, 1 failed'' @ backslash_n)\<rparr>) None
            ([] @ [TestsFailed 1 6] @ [] @ []))"
  proof (rule run_evaluation_eq)
    show "data_quality_probe (exits 1 ''5 passed, 1 failed'' []) (cfg test_session) = (None, [])"
      by (simp add: data_quality_probe_def configured_def test_session_fields)
    show "lint_probe (exits 1 ''5 passed, 1 failed'' []) (cfg test_session) = (None, [])"
      by (simp add: lint_probe_def configured_def test_session_fields)
    show "perf_probe ieee (exits 1 ''5 passed, 1 failed'' []) (cfg test_session)
            (best_perf test_session) = Inr (None, [], None)"
      by (simp add: perf_probe_def configured_def test_session_fields)
    show "test_probe (exits 1 ''5 passed, 1 failed'' []) (cfg test_session) =
            Inr (Some \<lparr>passed = 5, failed = 1, total = 6,
                       raw = Some (''5 passed, 1 failed'' @ backslash_n)\<rparr>, [TestsFailed 1 6])"
      by (simp add: test_probe_def configured_def test_session_fields five_of_six_parsed
            bind_err_Inr tests_feedback_def)
  qed
  moreover have "test_session\<lparr>best_perf := None\<rparr> = test_session"
    using test_session_fields(5) by simp
  ultimately show ?thesis by simp
qed

lemma bench_session_one_run:
  "run_evaluation ieee (exits 0 ''2 min'' []) bench_session =
     Inr (score_and_update ieee bench_session None None None
            (Some \<lparr>value = 120, unit = Some ''seconds''\<rparr>) [PerfMeasured 120 None])"
proof -
  have "run_evaluation ieee (exits 0 ''2 min'' []) bench_session =
     Inr (score_and_update ieee (bench_session\<lparr>best_perf := None\<rparr>) None None None
            (Some \<lparr>value = 120, unit = Some ''seconds''\<rparr>)
            ([] @ [] @ [] @ [PerfMeasured 120 None]))"
  proof (rule run_evaluation_eq)
    show "data_quality_probe (exits 0 ''2 min'' []) (cfg bench_session) = (None, [])"
      by (simp add: data_quality_probe_def configured_def bench_session_fields)
    show "lint_probe (exits 0 ''2 min'' []) (cfg bench_session) = (None, [])"
      by (simp add: lint_probe_def configured_def bench_session_fields)
    show "test_probe (exits 0 ''2 min'' []) (cfg bench_session) = Inr (None, [])"
      by (simp add: test_probe_def configured_def bench_session_fields)
    show "perf_probe ieee (exits 0 ''2 min'' []) (cfg bench_session) (best_perf bench_session) =
            Inr (Some \<lparr>value = 120, unit = Some ''seconds''\<rparr>, [PerfMeasured 120 None], None)"
      by (simp add: perf_probe_def configured_def bench_session_fields two_minutes_parsed
            bind_err_Inr record_perf_def)
  qed
  moreover have "bench_session\<lparr>best_perf := None\<rparr> = bench_session"
    using bench_session_fields(2) by simp
  ultimately show ?thesis by simp
qed

text \<open>
  Claim C6 (as amended). For a session made by \<^verbatim>\<open>create_session\<close> and evaluated any
  number of times, the history has one entry per evaluation, and the moving average of
  every entry after the first is \<open>\<alpha>\<close> times its score plus \<open>1 - \<alpha>\<close> times the moving
  average of the entry before, as \<^verbatim>\<open>update_ema_score\<close> computes it: each product, the
  difference \<open>1 - \<alpha>\<close> and the sum are rounded. The moving average of the first entry is
  the same rounded expression with the entry's own score as the previous average. In
  exact arithmetic that is the score, and the law holds as the specification words it.
\<close>

theorem ema_history_law:
  assumes "run_evaluations ar runs
             (fst (create_session sessions sid repo dqc tc lc pc tmo w h a z)) = Inr s"
  shows "length (history s) = length runs
         \<and> ema_recurrence ar (ema_alpha s) (history s)
         \<and> (rnd ar = (\<lambda>x. x) \<longrightarrow> ema_law (ema_alpha s) (history s))"
proof -
  let ?s0 = "fst (create_session sessions sid repo dqc tc lc pc tmo w h a z)"
  have "session_inv ar ?s0" by (rule create_session_inv)
  from run_evaluations_inv [OF this assms]
  have inv: "session_inv ar s"
    and len: "length (history s) = length (history ?s0) + length runs"
    by simp_all
  have "history ?s0 = []" by (simp add: create_session_def Let_def)
  then have l: "length (history s) = length runs" using len by simp
  have r: "ema_recurrence ar (ema_alpha s) (history s)" using inv by (simp add: session_inv_def)
  have "ema_law (ema_alpha s) (history s)" if "rnd ar = (\<lambda>x. x)"
    using that r by (rule ema_recurrence_exact)
  then show ?thesis using l r by simp
qed

theorem ema_history_law_witness:
  "\<exists>s. run_evaluations exact [exits 0 [] [], exits 1 [] ''E501 line too long''] lint_session = Inr s
       \<and> rnd exact = (\<lambda>x. x)
       \<and> ema_alpha s = 0.9
       \<and> map score (history s) = [1, 0]
       \<and> EvalResult.ema_score (history s ! 0) = 1
       \<and> EvalResult.ema_score (history s ! 1) = 0.9 * 0 + (1 - 0.9) * 1"
proof -
  let ?runs = "[exits 0 [] [], exits 1 [] ''E501 line too long'']"
  from lint_session_two_runs obtain s
    where run: "run_evaluations exact ?runs lint_session = Inr s"
      and sc: "map score (history s) = [1, 0]"
    by (auto split: sum.splits)
  have run': "run_evaluations exact ?runs
                (fst (create_session Map.empty ''s1'' ''/repo'' None None (Some ''flake8 src/'')
                        None 120 None example_halt 0.9 None)) = Inr s"
    using run by (simp add: lint_session_def)
  have ex: "rnd exact = (\<lambda>x. x)" by (simp add: exact_def)
  from ema_history_law [OF run'] ex
  have law: "ema_law (ema_alpha s) (history s)" and len: "length (history s) = 2"
    by simp_all
  have al: "ema_alpha s = 0.9"
    using run_evaluations_inv [OF create_session_inv run']
    by (simp add: create_session_def Let_def)
  from sc have s0: "score (history s ! 0) = 1" and s1: "score (history s ! 1) = 0"
    by (auto simp: map_eq_Cons_conv)
  have ne: "history s \<noteq> []" using len by auto
  have e0: "EvalResult.ema_score (history s ! 0) = 1"
    using law ne s0 unfolding ema_law_def by simp
  have i1: "1 \<le> (1::nat) \<and> 1 < length (history s)" using len by simp
  have "EvalResult.ema_score (history s ! 1) =
          ema_alpha s * score (history s ! 1) +
          (1 - ema_alpha s) * EvalResult.ema_score (history s ! (1 - 1))"
    using law i1 unfolding ema_law_def by blast
  then have e1: "EvalResult.ema_score (history s ! 1) = 0.9 * 0 + (1 - 0.9) * 1"
    using al s1 e0 by simp
  show ?thesis using run ex al sc e0 e1 by (intro exI [of _ s] conjI)
qed

text \<open>
  Claim C6 fails as stated in the arithmetic of the interpreter. A session with the
  default weights, the smoothing factor 0.9 and a test command is evaluated once, on
  the output \<^verbatim>\<open>5 passed, 1 failed\<close>. Its score is the double 0.8333333333333334,
  and the moving average recorded with it is the double 0.8333333333333333.
\<close>

theorem ema_first_evaluation_rounded:
  "\<exists>s. run_evaluations ieee [exits 1 ''5 passed, 1 failed'' []] test_session = Inr s
       \<and> length (history s) = 1
       \<and> score (history s ! 0) = 7505999378950827 / 2 ^ 53
       \<and> EvalResult.ema_score (history s ! 0) = 3752999689475413 / 2 ^ 52
       \<and> EvalResult.ema_score (history s ! 0) \<noteq> score (history s ! 0)"
proof -
  let ?t = "Some \<lparr>passed = 5, failed = 1, total = 6,
                   raw = Some (''5 passed, 1 failed'' @ backslash_n)\<rparr>"
  let ?u = "score_and_update ieee test_session None None ?t None [TestsFailed 1 6]"
  have run: "run_evaluations ieee [exits 1 ''5 passed, 1 failed'' []] test_session = Inr (snd ?u)"
    by (simp add: test_session_one_run bind_err_Inr)
  have h: "history (snd ?u) = [fst ?u]"
    by (simp add: score_and_update_result test_session_fields)
  have sc: "score (fst ?u) = 7505999378950827 / 2 ^ 53"
    by (simp only: score_and_update_result test_session_fields five_of_six_score)
  have "EvalResult.ema_score (fst ?u) =
          update_ema_score ieee (7505999378950827 / 2 ^ 53) (7505999378950827 / 2 ^ 53)
            (8106479329266893 / 2 ^ 53)"
    by (simp only: score_and_update_result test_session_fields five_of_six_score)
       simp
  then have em: "EvalResult.ema_score (fst ?u) = 3752999689475413 / 2 ^ 52"
    by (simp only: five_of_six_ema)
  have ne: "(3752999689475413 / 2 ^ 52 :: real) \<noteq> 7505999378950827 / 2 ^ 53"
    by simp
  show ?thesis
    using run h sc em ne by simp
qed

text \<open>
  Claim C1. A session made by \<^verbatim>\<open>create_session\<close> starts with \<^verbatim>\<open>best_perf\<close>
  absent, and \<^verbatim>\<open>run_evaluation\<close> assigns \<^verbatim>\<open>best_perf\<close> only when it is already
  present: the assignment stands under \<^verbatim>\<open>if session.best_perf is not None\<close>. After
  any number of evaluations \<^verbatim>\<open>best_perf\<close> is still absent, whatever performance
  values were parsed. So it is not the minimum of the values observed.
\<close>

theorem best_perf_never_recorded:
  assumes "run_evaluations ar runs
             (fst (create_session sessions sid repo dqc tc lc pc tmo w h a z)) = Inr s"
  shows "best_perf s = None"
proof (rule run_evaluations_best_perf [OF _ assms])
  show "best_perf (fst (create_session sessions sid repo dqc tc lc pc tmo w h a z)) = None"
    by (simp add: create_session_def Let_def)
qed

theorem best_perf_never_recorded_witness:
  "\<exists>s. run_evaluations ieee [exits 0 ''2 min'' []] bench_session = Inr s
       \<and> map (\<lambda>r. map_option value (EvalResult.perf r)) (history s) = [Some 120]
       \<and> best_perf s = None"
proof -
  let ?u = "score_and_update ieee bench_session None None None
              (Some \<lparr>value = 120, unit = Some ''seconds''\<rparr>) [PerfMeasured 120 None]"
  have run: "run_evaluations ieee [exits 0 ''2 min'' []] bench_session = Inr (snd ?u)"
    by (simp add: bench_session_one_run bind_err_Inr)
  have pv: "map (\<lambda>r. map_option value (EvalResult.perf r)) (history (snd ?u)) = [Some 120]"
    by (simp add: score_and_update_result bench_session_fields)
  have "run_evaluations ieee [exits 0 ''2 min'' []]
          (fst (create_session Map.empty ''s3'' ''/repo'' None None None (Some ''python bench.py'')
                  120 (Some (stored ieee DEFAULT_WEIGHTS)) example_halt (rnd ieee 0.9) None))
        = Inr (snd ?u)"
    using run by (simp add: bench_session_def)
  from best_perf_never_recorded [OF this] have "best_perf (snd ?u) = None" .
  then show ?thesis using run pv
    by (intro exI [of _ "snd (score_and_update ieee bench_session None None None
              (Some \<lparr>value = 120, unit = Some ''seconds''\<rparr>) [PerfMeasured 120 None])"] conjI)
qed

end
